theory Spec2Isabelle
  imports Complex_Main
begin

section \<open>Vectors, errors, configuration and the external libraries\<close>

text \<open>
  The game computes on numpy arrays of Python floats, which are IEEE 754 doubles. The
  model computes on the reals these doubles stand for: a two-component array is a pair,
  the ship's three-component arrays are triples, and a field of a record holds the value
  of a finite double. Rounding is modelled in \<open>explode\<close>, where the branch taken depends
  on it and where a zero, an infinity or a NaN can arise. Elsewhere a division by zero
  that would give numpy an infinity or a NaN is pointed out next to the definition.
\<close>

type_synonym vec2 = "real \<times> real"
type_synonym vec3 = "real \<times> real \<times> real"
type_synonym color = "nat \<times> nat \<times> nat"

fun vadd :: "vec2 \<Rightarrow> vec2 \<Rightarrow> vec2" where
  "vadd (a, b) (c, d) = (a + c, b + d)"

fun vsub :: "vec2 \<Rightarrow> vec2 \<Rightarrow> vec2" where
  "vsub (a, b) (c, d) = (a - c, b - d)"

fun smul :: "real \<Rightarrow> vec2 \<Rightarrow> vec2" where
  "smul k (a, b) = (k * a, k * b)"

text \<open>\<^verbatim>\<open>numpy.linalg.norm\<close> of a two-component array.\<close>

fun norm2 :: "vec2 \<Rightarrow> real" where
  "norm2 (a, b) = sqrt (a\<^sup>2 + b\<^sup>2)"

fun vadd3 :: "vec3 \<Rightarrow> vec3 \<Rightarrow> vec3" where
  "vadd3 (a, b, c) (d, e, f) = (a + d, b + e, c + f)"

fun smul3 :: "real \<Rightarrow> vec3 \<Rightarrow> vec3" where
  "smul3 k (a, b, c) = (k * a, k * b, k * c)"

text \<open>\<^verbatim>\<open>numpy.cross\<close> of two three-component arrays.\<close>

fun cross3 :: "vec3 \<Rightarrow> vec3 \<Rightarrow> vec3" where
  "cross3 (a, b, c) (d, e, f) = (b * f - c * e, c * d - a * f, a * e - b * d)"

fun norm3 :: "vec3 \<Rightarrow> real" where
  "norm3 (a, b, c) = sqrt (a\<^sup>2 + b\<^sup>2 + c\<^sup>2)"

text \<open>The slice \<^verbatim>\<open>x[:2]\<close> of a three-component array.\<close>

fun proj2 :: "vec3 \<Rightarrow> vec2" where
  "proj2 (a, b, c) = (a, b)"

text \<open>
  The exceptions the modelled code can raise. \<open>NotANumber\<close> is not a Python exception:
  it marks the place in \<open>explode\<close> where a NaN or an infinity would become the diameter
  of a fragment, which a field of the model cannot hold.
\<close>

datatype error = ZeroDivisionError | ValueError | OverflowError | NotANumber

text \<open>
  The \<^verbatim>\<open>ConfigParser\<close> object, as far as the game reads it. A missing field raises in
  the source; the record has every field, so such a configuration is not an input here.
\<close>

record config =
  ship_length :: int
  ship_width :: int
  ship_edge_width :: int
  ship_linear_acceleration :: real
  ship_angular_acceleration :: real
  ship_reload_period :: real
  asteroid_minimum_diameter :: int
  asteroid_median_diameter :: int
  asteroid_minimum_speed :: real
  asteroid_median_speed :: real
  asteroid_edge_width :: int
  asteroid_area_ratio :: real
  asteroid_energy_ratio :: real
  bullet_diameter :: int
  bullet_muzzle_speed :: real
  bullet_lifespan :: real
  game_initial_lives :: int
  game_asteroids_count :: int
  game_fragments_count :: int
  game_respawn_period :: real

text \<open>
  What the game takes from pygame and scipy, as parameters:
  \<^item> \<open>surface_dim d\<close> is the width in pixels of \<^verbatim>\<open>pygame.Surface((d, d))\<close> for a Python
    number \<open>d\<close>;
  \<^item> \<open>rotated_size sz u\<close> is the size of the surface that \<^verbatim>\<open>pygame.transform.rotate\<close>
    returns for a prototype of size \<open>sz\<close> and the angle
    \<^verbatim>\<open>-degrees(arctan2(u[1], u[0]))\<close>;
  \<^item> \<open>root f v0\<close> is the array \<^verbatim>\<open>scipy.optimize.root(f, v0).x\<close>, which has the shape
    of \<open>v0\<close>.
\<close>

record externals =
  surface_dim :: "real \<Rightarrow> int"
  rotated_size :: "int \<times> int \<Rightarrow> vec3 \<Rightarrow> int \<times> int"
  root :: "(real list \<Rightarrow> real list) \<Rightarrow> real list \<Rightarrow> real list"


section \<open>Double-precision arithmetic\<close>

text \<open>
  A double is a finite value, the negative zero, an infinity or a NaN. \<open>Finite 0\<close> is the
  positive zero. A real number in a field of the model stands for \<open>Finite\<close> of it.
\<close>

datatype double = Finite real | NegZero | PlusInf | MinusInf | NaN

text \<open>The power of two with an integer exponent.\<close>

definition pow2 :: "int \<Rightarrow> real" where
  "pow2 e = (if 0 \<le> e then 2 ^ nat e else 1 / 2 ^ nat (- e))"

text \<open>The nearest integer, the even one of the two at a tie.\<close>

definition round_half_even :: "real \<Rightarrow> int" where
  "round_half_even y =
     (let f = \<lfloor>y\<rfloor>; r = y - real_of_int f
      in if r < 1 / 2 then f
         else if 1 / 2 < r then f + 1
         else if even f then f else f + 1)"

text \<open>
  The exponent of the unit in the last place of the double nearest to \<open>x\<close>: a double has
  53 significant bits, and below \<open>2 ^ - 1022\<close> the doubles are evenly spaced.
\<close>

definition ulp_exponent :: "real \<Rightarrow> int" where
  "ulp_exponent x = max \<lfloor>log 2 \<bar>x\<bar>\<rfloor> (- 1022) - 52"

text \<open>
  Rounding to the nearest double, ties to even: the result of every arithmetic operation
  of the machine on its exact result \<open>x\<close>. A result of magnitude \<open>2 ^ 1024\<close> or more is an
  infinity; a result that rounds to zero keeps the sign of \<open>x\<close>.
\<close>

definition round_double :: "real \<Rightarrow> double" where
  "round_double x =
     (let e = ulp_exponent x;
          m = round_half_even (x / pow2 e)
      in if 2 ^ 1024 \<le> \<bar>real_of_int m * pow2 e\<bar>
         then (if 0 < x then PlusInf else MinusInf)
         else if m = 0 then (if 0 \<le> x then Finite 0 else NegZero)
         else Finite (real_of_int m * pow2 e))"

text \<open>The conversion of a Python integer to a float, which raises OverflowError when the
  integer is too large; numpy converts an integer operand in the same way.\<close>

definition float_of_int :: "int \<Rightarrow> error + real" where
  "float_of_int n =
     (case round_double (real_of_int n) of
        Finite x \<Rightarrow> Inr x
      | NegZero \<Rightarrow> Inr 0
      | _ \<Rightarrow> Inl OverflowError)"

text \<open>
  The quotient \<open>x / y\<close> of a finite double \<open>x\<close> that is not the negative zero by a double
  \<open>y\<close>, as numpy computes it: no exception on a zero divisor.
\<close>

fun double_div :: "real \<Rightarrow> double \<Rightarrow> double" where
  "double_div x NaN = NaN"
| "double_div x PlusInf = (if x < 0 then NegZero else Finite 0)"
| "double_div x MinusInf = (if x < 0 then Finite 0 else NegZero)"
| "double_div x NegZero = (if x = 0 then NaN else if 0 < x then MinusInf else PlusInf)"
| "double_div x (Finite y) =
     (if y = 0 then (if x = 0 then NaN else if 0 < x then PlusInf else MinusInf)
      else if x = 0 then (if 0 < y then Finite 0 else NegZero)
      else round_double (x / y))"

text \<open>\<^verbatim>\<open>numpy.sqrt\<close> of a double: the square root of a negative number is NaN, that of the
  negative zero is the negative zero.\<close>

fun double_sqrt :: "double \<Rightarrow> double" where
  "double_sqrt NaN = NaN"
| "double_sqrt PlusInf = PlusInf"
| "double_sqrt MinusInf = NaN"
| "double_sqrt NegZero = NegZero"
| "double_sqrt (Finite x) =
     (if x < 0 then NaN else if x = 0 then Finite 0 else round_double (sqrt x))"

text \<open>The product \<open>x * y\<close> of a double \<open>x\<close> and a finite double \<open>y\<close> that is not the negative
  zero.\<close>

fun double_mul :: "double \<Rightarrow> real \<Rightarrow> double" where
  "double_mul NaN y = NaN"
| "double_mul PlusInf y = (if y = 0 then NaN else if 0 < y then PlusInf else MinusInf)"
| "double_mul MinusInf y = (if y = 0 then NaN else if 0 < y then MinusInf else PlusInf)"
| "double_mul NegZero y = (if y < 0 then Finite 0 else NegZero)"
| "double_mul (Finite x) y =
     (if x = 0 then (if y < 0 then NegZero else Finite 0)
      else if y = 0 then (if x < 0 then NegZero else Finite 0)
      else round_double (x * y))"

text \<open>The comparison \<open>x < y\<close> of a finite double with a double; it is false against NaN.\<close>

fun less_double :: "real \<Rightarrow> double \<Rightarrow> bool" where
  "less_double x NaN = False"
| "less_double x PlusInf = True"
| "less_double x MinusInf = False"
| "less_double x NegZero = (x < 0)"
| "less_double x (Finite y) = (x < y)"

text \<open>The value that a field of the model holds for a double: none for an infinity or a
  NaN; a field does not keep the sign of a zero.\<close>

fun finite_value :: "double \<Rightarrow> real option" where
  "finite_value (Finite x) = Some x"
| "finite_value NegZero = Some 0"
| "finite_value _ = None"


section \<open>Asteroids\<close>

record asteroid =
  diameter :: real
  a_r :: vec2
  a_v :: vec2
  a_color :: color
  a_config :: "config option"
  a_edge_width :: int
  a_area_ratio :: real
  a_energy_ratio :: real
  a_minimum_diameter :: int
  a_image_size :: "int \<times> int"
  a_alive :: bool

definition default_minimum_diameter :: int where
  "default_minimum_diameter = 30"

definition default_median_diameter :: int where
  "default_median_diameter = 60"

definition default_minimum_speed :: real where
  "default_minimum_speed = 0"

definition default_median_speed :: real where
  "default_median_speed = 50"

definition default_area_ratio :: real where
  "default_area_ratio = 0.75"

definition default_energy_ratio :: real where
  "default_energy_ratio = 1.1"

definition default_edge_width :: int where
  "default_edge_width = 2"

text \<open>\<^verbatim>\<open>Asteroid.__init__\<close>. Drawing the circle on the image is not modelled.\<close>

definition Asteroid_init ::
  "externals \<Rightarrow> real \<Rightarrow> vec2 \<Rightarrow> vec2 \<Rightarrow> color \<Rightarrow> config option \<Rightarrow> asteroid" where
  "Asteroid_init ext d position velocity col cfg =
     \<lparr> diameter = d,
       a_r = position,
       a_v = velocity,
       a_color = col,
       a_config = cfg,
       a_edge_width = (case cfg of Some c \<Rightarrow> asteroid_edge_width c | None \<Rightarrow> default_edge_width),
       a_area_ratio = (case cfg of Some c \<Rightarrow> asteroid_area_ratio c | None \<Rightarrow> default_area_ratio),
       a_energy_ratio =
         (case cfg of Some c \<Rightarrow> asteroid_energy_ratio c | None \<Rightarrow> default_energy_ratio),
       a_minimum_diameter =
         (case cfg of Some c \<Rightarrow> asteroid_minimum_diameter c | None \<Rightarrow> default_minimum_diameter),
       a_image_size = (surface_dim ext d, surface_dim ext d),
       a_alive = True \<rparr>"

text \<open>\<^verbatim>\<open>Asteroid.tick\<close>: \<^verbatim>\<open>self._r += self._v * dt\<close>.\<close>

definition Asteroid_tick :: "asteroid \<Rightarrow> real \<Rightarrow> asteroid" where
  "Asteroid_tick a dt = a\<lparr>a_r := vadd (a_r a) (smul dt (a_v a))\<rparr>"

subsection \<open>The system of equations of the fragmentation\<close>

text \<open>The slice \<^verbatim>\<open>v[0::2]\<close>; \<^verbatim>\<open>v[1::2]\<close> is \<open>stride2 (drop 1 v)\<close>.\<close>

fun stride2 :: "real list \<Rightarrow> real list" where
  "stride2 [] = []"
| "stride2 [x] = [x]"
| "stride2 (x # y # xs) = x # stride2 xs"

text \<open>The slice \<^verbatim>\<open>v[2 * k: 2 * k + 2]\<close>.\<close>

definition pair_slice :: "real list \<Rightarrow> nat \<Rightarrow> real list" where
  "pair_slice v k = take 2 (drop (2 * k) v)"

definition norm_l :: "real list \<Rightarrow> real" where
  "norm_l xs = sqrt (sum_list (map (\<lambda>x. x\<^sup>2) xs))"

text \<open>\<^verbatim>\<open>numpy.dot\<close> of two slices of the same length.\<close>

definition dot_l :: "real list \<Rightarrow> real list \<Rightarrow> real" where
  "dot_l xs ys = sum_list (map2 (*) xs ys)"

text \<open>
  \<^verbatim>\<open>system_of_equations\<close>, the closure inside \<^verbatim>\<open>Asteroid.explode\<close>, for a vector \<open>v\<close> of
  \<open>2 * fragments_count\<close> components. \<^verbatim>\<open>numpy.empty\<close> raises ValueError on a negative
  dimension, which happens for the equal-velocities block when \<open>fragments_count < 1\<close> and
  for the equal-angles block when \<open>fragments_count < 2\<close>.
\<close>

definition system_of_equations :: "asteroid \<Rightarrow> int \<Rightarrow> real list \<Rightarrow> error + real list" where
  "system_of_equations a fragments_count v =
     (let n = nat fragments_count;
          com = [fst (a_v a) - sum_list (stride2 v) / real_of_int fragments_count,
                 snd (a_v a) - sum_list (stride2 (drop 1 v)) / real_of_int fragments_count];
          s = map (\<lambda>kk. norm_l (pair_slice v kk)) [0..<n];
          coe = [a_energy_ratio a * (norm2 (a_v a))\<^sup>2
                 - a_area_ratio a / real_of_int fragments_count
                   * sum_list (map (\<lambda>x. x\<^sup>2) s)]
      in if fragments_count - 1 < 0 then Inl ValueError
         else let ev = map (\<lambda>kk. s ! kk - s ! (kk + 1)) [0..<n - 1]
           in if fragments_count - 2 < 0 then Inl ValueError
              else let ea = map (\<lambda>kk. dot_l (pair_slice v kk) (pair_slice v (kk + 1))
                                      - dot_l (pair_slice v (kk + 1)) (pair_slice v (kk + 2)))
                                [0..<n - 2]
                in Inr (com @ coe @ ev @ ea))"

subsection \<open>Explosion\<close>

text \<open>
  The local variable \<^verbatim>\<open>diameter_ratio = numpy.sqrt(self._area_ratio / fragments_count)\<close>
  of \<^verbatim>\<open>Asteroid.explode\<close>. The quotient divides a Python float by a Python integer: the
  integer is converted to a float, and a zero divisor raises ZeroDivisionError. The
  quotient and the square root are each rounded to a double.
\<close>

definition diameter_ratio :: "asteroid \<Rightarrow> int \<Rightarrow> error + double" where
  "diameter_ratio a fragments_count =
     (case float_of_int fragments_count of
        Inl e \<Rightarrow> Inl e
      | Inr n \<Rightarrow>
          if n = 0 then Inl ZeroDivisionError
          else Inr (double_sqrt (double_div (a_area_ratio a) (Finite n))))"

text \<open>
  \<^verbatim>\<open>Asteroid.explode\<close>. The result is the list of fragments and the asteroid after the
  call, or the exception raised.
  \<^item> The test \<^verbatim>\<open>self.diameter < self._minimum_diameter / diameter_ratio\<close> divides by a
    \<^verbatim>\<open>numpy.float64\<close> and compares doubles: the quotient is rounded, and for a ratio that
    is a zero or a NaN it is an infinity or a NaN and no exception.
  \<^item> In the else branch \<^verbatim>\<open>numpy.zeros\<close> raises ValueError for a negative count, and
    \<^verbatim>\<open>scipy.optimize.root\<close> evaluates the system at \<open>v0\<close>, so an exception of the system
    is raised by the call.
  \<^item> The diameter of the fragments is the rounded product
    \<^verbatim>\<open>diameter_ratio * self.diameter\<close>.
  \<^item> The velocity of fragment \<open>k\<close> is \<^verbatim>\<open>sol.x[2 * k: 2 * k + 2]\<close>, two components of an
    array of \<open>2 * fragments_count\<close> components.
\<close>

definition explode :: "externals \<Rightarrow> asteroid \<Rightarrow> int \<Rightarrow> error + (asteroid list \<times> asteroid)" where
  "explode ext a fragments_count =
     (let a' = a\<lparr>a_alive := False\<rparr> in
      case diameter_ratio a fragments_count of
        Inl e \<Rightarrow> Inl e
      | Inr ratio \<Rightarrow>
          (case float_of_int (a_minimum_diameter a) of
             Inl e \<Rightarrow> Inl e
           | Inr minimum \<Rightarrow>
               if less_double (diameter a) (double_div minimum ratio) then Inr ([], a')
               else if fragments_count < 0 then Inl ValueError
               else
                 let v0 = replicate (2 * nat fragments_count) (0::real) in
                 (case system_of_equations a fragments_count v0 of
                    Inl e \<Rightarrow> Inl e
                  | Inr _ \<Rightarrow>
                      let x = root ext
                            (\<lambda>v. case system_of_equations a fragments_count v of
                                    Inr y \<Rightarrow> y | Inl _ \<Rightarrow> [])
                            v0
                      in (case finite_value (double_mul ratio (diameter a)) of
                            None \<Rightarrow> Inl NotANumber
                          | Some d \<Rightarrow>
                              Inr (map (\<lambda>k. (Asteroid_init ext d (a_r a) (0, 0)
                                                (a_color a) (a_config a))
                                             \<lparr>a_v := (x ! (2 * k), x ! (2 * k + 1))\<rparr>)
                                     [0..<nat fragments_count],
                                   a')))))"


section \<open>Bullets\<close>

record bullet =
  b_r :: vec2
  b_color :: color
  b_config :: "config option"
  b_diameter :: int
  b_muzzle_speed :: real
  b_lifespan :: real
  b_v :: vec2
  b_image_size :: "int \<times> int"
  b_alive :: bool
  b_age :: real

definition default_muzzle_speed :: real where
  "default_muzzle_speed = 100"

definition default_diameter :: int where
  "default_diameter = 5"

definition default_lifespan :: real where
  "default_lifespan = 5"

text \<open>\<^verbatim>\<open>Bullet.__init__\<close>. The image is a surface of \<open>diameter\<close> by \<open>diameter\<close> pixels.\<close>

definition Bullet_init :: "vec2 \<Rightarrow> vec2 \<Rightarrow> vec2 \<Rightarrow> color \<Rightarrow> config option \<Rightarrow> bullet" where
  "Bullet_init gun_position gun_velocity gun_direction col cfg =
     (let d = (case cfg of Some c \<Rightarrow> bullet_diameter c | None \<Rightarrow> default_diameter);
          ms = (case cfg of Some c \<Rightarrow> bullet_muzzle_speed c | None \<Rightarrow> default_muzzle_speed);
          ls = (case cfg of Some c \<Rightarrow> bullet_lifespan c | None \<Rightarrow> default_lifespan)
      in \<lparr> b_r = gun_position,
           b_color = col,
           b_config = cfg,
           b_diameter = d,
           b_muzzle_speed = ms,
           b_lifespan = ls,
           b_v = vadd gun_velocity (smul ms gun_direction),
           b_image_size = (d, d),
           b_alive = True,
           b_age = 0 \<rparr>)"

definition Bullet_explode :: "bullet \<Rightarrow> bullet" where
  "Bullet_explode b = b\<lparr>b_alive := False\<rparr>"

text \<open>\<^verbatim>\<open>Bullet.tick\<close>.\<close>

definition Bullet_tick :: "bullet \<Rightarrow> real \<Rightarrow> bullet" where
  "Bullet_tick b dt =
     (let b1 = b\<lparr>b_r := vadd (b_r b) (smul dt (b_v b)), b_age := b_age b + dt\<rparr>
      in if b_age b1 \<ge> b_lifespan b1 then Bullet_explode b1 else b1)"


section \<open>The ship\<close>

record ship =
  r_cm :: vec3
  v_cm :: vec3
  u_nose_cm :: vec3
  omega :: vec3
  s_color :: color
  s_config :: "config option"
  s_length :: int
  s_width :: int
  s_edge_width :: int
  s_a :: real
  s_alpha :: real
  reload_period :: real
  prototype_size :: "int \<times> int"
  s_image_size :: "int \<times> int"
  thrusting :: int
  steering :: int
  reloading :: real
  s_alive :: bool

definition default_linear_acceleration :: real where
  "default_linear_acceleration = 100"

definition default_angular_acceleration :: real where
  "default_angular_acceleration = 2 * pi"

definition default_length :: int where
  "default_length = 30"

definition default_width :: int where
  "default_width = 30"

definition default_ship_edge_width :: int where
  "default_ship_edge_width = 2"

definition default_reload_period :: real where
  "default_reload_period = 1"

text \<open>The twelve-component state of the integrator, as the four arrays it is split into.\<close>

type_synonym ship_state = "vec3 \<times> vec3 \<times> vec3 \<times> vec3"

fun st_add :: "ship_state \<Rightarrow> ship_state \<Rightarrow> ship_state" where
  "st_add (r, v, u, w) (r', v', u', w') = (vadd3 r r', vadd3 v v', vadd3 u u', vadd3 w w')"

fun st_smul :: "real \<Rightarrow> ship_state \<Rightarrow> ship_state" where
  "st_smul k (r, v, u, w) = (smul3 k r, smul3 k v, smul3 k u, smul3 k w)"

text \<open>\<^verbatim>\<open>rates_of_change\<close>, the closure inside \<^verbatim>\<open>Ship.tick\<close>.\<close>

fun rates_of_change :: "ship \<Rightarrow> ship_state \<Rightarrow> ship_state" where
  "rates_of_change s (r, v, u, w) =
     (v,
      smul3 (real_of_int (thrusting s) * s_a s) u,
      cross3 w u,
      smul3 (real_of_int (steering s) * s_alpha s) (0, 0, 1))"

text \<open>\<^verbatim>\<open>u /= numpy.linalg.norm(u)\<close>. For a zero vector numpy gives NaN components; the model
  then has zero components.\<close>

fun normalized3 :: "vec3 \<Rightarrow> vec3" where
  "normalized3 (a, b, c) = (a / norm3 (a, b, c), b / norm3 (a, b, c), c / norm3 (a, b, c))"

text \<open>\<^verbatim>\<open>Ship.tick\<close>: one step of the classical Runge-Kutta method, the heading made a unit
  vector again, the image rotated to the heading, the reload timer counted down.\<close>

definition Ship_tick :: "externals \<Rightarrow> ship \<Rightarrow> real \<Rightarrow> ship" where
  "Ship_tick ext s dt =
     (let initial_state = (r_cm s, v_cm s, u_nose_cm s, omega s);
          k1 = rates_of_change s initial_state;
          k2 = rates_of_change s (st_add initial_state (st_smul (1 / 2) (st_smul dt k1)));
          k3 = rates_of_change s (st_add initial_state (st_smul (1 / 2) (st_smul dt k2)));
          k4 = rates_of_change s (st_add initial_state (st_smul dt k3));
          new_state = st_add initial_state
                        (st_smul (1 / 6 * dt)
                           (st_add (st_add (st_add k1 (st_smul 2 k2)) (st_smul 2 k3)) k4))
      in case new_state of (r, v, u, w) \<Rightarrow>
           s\<lparr> r_cm := r, v_cm := v, u_nose_cm := normalized3 u, omega := w,
              s_image_size := rotated_size ext (prototype_size s) (normalized3 u),
              reloading := reloading s - dt \<rparr>)"

text \<open>\<^verbatim>\<open>Ship.__init__\<close>. It ends with \<^verbatim>\<open>self.tick(0)\<close>, which makes the first image.
  Before that call the image is \<^verbatim>\<open>None\<close>; the record holds the prototype's size there.\<close>

definition Ship_init ::
  "externals \<Rightarrow> vec2 \<Rightarrow> vec2 \<Rightarrow> vec2 \<Rightarrow> real \<Rightarrow> color \<Rightarrow> config option \<Rightarrow> ship" where
  "Ship_init ext position velocity direction angular_velocity col cfg =
     (let len = (case cfg of Some c \<Rightarrow> ship_length c | None \<Rightarrow> default_length);
          wid = (case cfg of Some c \<Rightarrow> ship_width c | None \<Rightarrow> default_width)
      in Ship_tick ext
           \<lparr> r_cm = (fst position, snd position, 0),
             v_cm = (fst velocity, snd velocity, 0),
             u_nose_cm = (fst direction, snd direction, 0),
             omega = (0, 0, angular_velocity),
             s_color = col,
             s_config = cfg,
             s_length = len,
             s_width = wid,
             s_edge_width =
               (case cfg of Some c \<Rightarrow> ship_edge_width c | None \<Rightarrow> default_ship_edge_width),
             s_a = (case cfg of Some c \<Rightarrow> ship_linear_acceleration c
                    | None \<Rightarrow> default_linear_acceleration),
             s_alpha = (case cfg of Some c \<Rightarrow> ship_angular_acceleration c
                        | None \<Rightarrow> default_angular_acceleration),
             reload_period =
               (case cfg of Some c \<Rightarrow> ship_reload_period c | None \<Rightarrow> default_reload_period),
             prototype_size = (len, wid),
             s_image_size = (len, wid),
             thrusting = 0,
             steering = 0,
             reloading = 0,
             s_alive = True \<rparr>
           0)"

definition Ship_explode :: "ship \<Rightarrow> ship" where
  "Ship_explode s = s\<lparr>s_alive := False\<rparr>"

subsection \<open>Events and firing\<close>

datatype key = K_UP | K_LEFT | K_RIGHT | K_SPACE | K_OTHER

datatype event = KEYDOWN key | KEYUP key | OTHER_EVENT

text \<open>The response \<^verbatim>\<open>(BULLET_FIRED, bullet)\<close>.\<close>

datatype response = BULLET_FIRED bullet

text \<open>\<^verbatim>\<open>Ship.fire_bullet\<close>.\<close>

definition fire_bullet :: "ship \<Rightarrow> response \<times> ship" where
  "fire_bullet s =
     (let s' = s\<lparr>reloading := reload_period s\<rparr>;
          r_gun = vadd3 (r_cm s') (smul3 (real_of_int (s_length s') / 2) (u_nose_cm s'));
          v_gun = vadd3 (v_cm s')
                    (smul3 (real_of_int (s_length s') / 2) (cross3 (omega s') (u_nose_cm s')));
          b = Bullet_init (proj2 r_gun) (proj2 v_gun) (proj2 (u_nose_cm s'))
                (s_color s') (s_config s')
      in (BULLET_FIRED b, s'))"

text \<open>\<^verbatim>\<open>Ship.handle_event\<close>: the response, or \<^verbatim>\<open>None\<close>, and the ship after the call.\<close>

fun handle_event :: "ship \<Rightarrow> event \<Rightarrow> response option \<times> ship" where
  "handle_event s (KEYDOWN K_UP) = (None, s\<lparr>thrusting := 1\<rparr>)"
| "handle_event s (KEYDOWN K_LEFT) = (None, s\<lparr>steering := steering s - 1\<rparr>)"
| "handle_event s (KEYDOWN K_RIGHT) = (None, s\<lparr>steering := steering s + 1\<rparr>)"
| "handle_event s (KEYDOWN K_SPACE) =
     (if reloading s \<le> 0 then (case fire_bullet s of (resp, s') \<Rightarrow> (Some resp, s'))
      else (None, s))"
| "handle_event s (KEYDOWN K_OTHER) = (None, s)"
| "handle_event s (KEYUP K_UP) = (None, s\<lparr>thrusting := 0\<rparr>)"
| "handle_event s (KEYUP K_LEFT) = (None, s\<lparr>steering := steering s + 1\<rparr>)"
| "handle_event s (KEYUP K_RIGHT) = (None, s\<lparr>steering := steering s - 1\<rparr>)"
| "handle_event s (KEYUP _) = (None, s)"
| "handle_event s OTHER_EVENT = (None, s)"


section \<open>The random generator\<close>

text \<open>
  The module-level generator \<^verbatim>\<open>rng\<close> is modelled by the sequence of the variates it is
  going to hand out, each at unit scale: a standard exponential variate (which is not
  negative) when \<^verbatim>\<open>exponential\<close> asks, a number of the interval from 0 to 1 (1 excluded)
  when \<^verbatim>\<open>uniform(0, 1, 2)\<close> asks. Every draw consumes the head of the sequence.
\<close>

type_synonym rng = "nat \<Rightarrow> real"

text \<open>\<^verbatim>\<open>rng.exponential(beta)\<close>; numpy raises ValueError for a negative scale.\<close>

definition rng_exponential :: "real \<Rightarrow> rng \<Rightarrow> error + (real \<times> rng)" where
  "rng_exponential beta g =
     (if beta < 0 then Inl ValueError else Inr (beta * g 0, \<lambda>n. g (Suc n)))"

text \<open>\<^verbatim>\<open>rng.uniform(0, 1, 2)\<close>.\<close>

definition rng_uniform2 :: "rng \<Rightarrow> vec2 \<times> rng" where
  "rng_uniform2 g = ((g 0, g 1), \<lambda>n. g (n + 2))"

text \<open>\<^verbatim>\<open>Asteroid.generate_diameter\<close>.\<close>

definition generate_diameter :: "config option \<Rightarrow> rng \<Rightarrow> error + (real \<times> rng)" where
  "generate_diameter cfg g =
     (let d_min = (case cfg of Some c \<Rightarrow> asteroid_minimum_diameter c
                   | None \<Rightarrow> default_minimum_diameter);
          d_med = (case cfg of Some c \<Rightarrow> asteroid_median_diameter c
                   | None \<Rightarrow> default_median_diameter);
          beta = real_of_int (d_med - d_min) / ln 2
      in case rng_exponential beta g of
           Inl e \<Rightarrow> Inl e
         | Inr (x, g') \<Rightarrow> Inr (x + real_of_int d_min, g'))"

text \<open>\<^verbatim>\<open>Asteroid.generate_position\<close>.\<close>

definition generate_position :: "int \<times> int \<Rightarrow> rng \<Rightarrow> vec2 \<times> rng" where
  "generate_position window_size g =
     (case rng_uniform2 g of
        (u, g') \<Rightarrow> ((real_of_int (fst window_size) * fst u, real_of_int (snd window_size) * snd u),
                    g'))"

text \<open>\<^verbatim>\<open>Asteroid.generate_velocity\<close>. When both uniform draws are zero, numpy divides zero
  by zero and the direction is NaN; the model then has the zero vector.\<close>

definition generate_velocity :: "config option \<Rightarrow> rng \<Rightarrow> error + (vec2 \<times> rng)" where
  "generate_velocity cfg g =
     (let s_min = (case cfg of Some c \<Rightarrow> asteroid_minimum_speed c | None \<Rightarrow> default_minimum_speed);
          s_med = (case cfg of Some c \<Rightarrow> asteroid_median_speed c | None \<Rightarrow> default_median_speed);
          beta = (s_med - s_min) / ln 2
      in case rng_exponential beta g of
           Inl e \<Rightarrow> Inl e
         | Inr (x, g1) \<Rightarrow>
             let speed = x + s_min in
             (case rng_uniform2 g1 of
                (direction, g2) \<Rightarrow>
                  let direction' = (fst direction / norm2 direction, snd direction / norm2 direction)
                  in Inr (smul speed direction', g2)))"


section \<open>The game\<close>

subsection \<open>Sprites and the window boundary\<close>

text \<open>
  \<^verbatim>\<open>Game._handle_boundary_crossings\<close> takes any of the three bodies and uses four of its
  methods: \<^verbatim>\<open>is_alive\<close>, \<^verbatim>\<open>get_size\<close>, and the property \<^verbatim>\<open>position\<close> with its setter.
\<close>

datatype sprite = Ship_sprite ship | Bullet_sprite bullet | Asteroid_sprite asteroid

fun is_alive :: "sprite \<Rightarrow> bool" where
  "is_alive (Ship_sprite s) = s_alive s"
| "is_alive (Bullet_sprite b) = b_alive b"
| "is_alive (Asteroid_sprite a) = a_alive a"

fun get_size :: "sprite \<Rightarrow> int \<times> int" where
  "get_size (Ship_sprite s) = s_image_size s"
| "get_size (Bullet_sprite b) = b_image_size b"
| "get_size (Asteroid_sprite a) = a_image_size a"

fun position :: "sprite \<Rightarrow> vec2" where
  "position (Ship_sprite s) = proj2 (r_cm s)"
| "position (Bullet_sprite b) = b_r b"
| "position (Asteroid_sprite a) = a_r a"

fun set_position :: "sprite \<Rightarrow> vec2 \<Rightarrow> sprite" where
  "set_position (Ship_sprite s) x = Ship_sprite (s\<lparr>r_cm := (fst x, snd x, 0)\<rparr>)"
| "set_position (Bullet_sprite b) x = Bullet_sprite (b\<lparr>b_r := x\<rparr>)"
| "set_position (Asteroid_sprite a) x = Asteroid_sprite (a\<lparr>a_r := x\<rparr>)"

definition handle_boundary_crossings :: "int \<times> int \<Rightarrow> sprite \<Rightarrow> sprite" where
  "handle_boundary_crossings window_size sprite =
     (if \<not> is_alive sprite then sprite
      else
        let width = real_of_int (fst (get_size sprite));
            height = real_of_int (snd (get_size sprite));
            sprite1 =
              (if fst (position sprite) < - width / 2
               then set_position sprite
                      (real_of_int (fst window_size) + width / 2, snd (position sprite))
               else if fst (position sprite) > real_of_int (fst window_size) + width / 2
               then set_position sprite (- width / 2, snd (position sprite))
               else sprite);
            sprite2 =
              (if snd (position sprite1) < - height / 2
               then set_position sprite1
                      (fst (position sprite1), real_of_int (snd window_size) + height / 2)
               else if snd (position sprite1) > real_of_int (snd window_size) + height / 2
               then set_position sprite1 (fst (position sprite1), - height / 2)
               else sprite1)
        in sprite2)"

text \<open>The three calls of \<^verbatim>\<open>_handle_boundary_crossings\<close> in \<^verbatim>\<open>Game.tick\<close>: the body that was
  passed is the body that comes back.\<close>

definition wrap_ship :: "int \<times> int \<Rightarrow> ship \<Rightarrow> ship" where
  "wrap_ship window_size s =
     (case handle_boundary_crossings window_size (Ship_sprite s) of
        Ship_sprite s' \<Rightarrow> s' | _ \<Rightarrow> s)"

definition wrap_bullet :: "int \<times> int \<Rightarrow> bullet \<Rightarrow> bullet" where
  "wrap_bullet window_size b =
     (case handle_boundary_crossings window_size (Bullet_sprite b) of
        Bullet_sprite b' \<Rightarrow> b' | _ \<Rightarrow> b)"

definition wrap_asteroid :: "int \<times> int \<Rightarrow> asteroid \<Rightarrow> asteroid" where
  "wrap_asteroid window_size a =
     (case handle_boundary_crossings window_size (Asteroid_sprite a) of
        Asteroid_sprite a' \<Rightarrow> a' | _ \<Rightarrow> a)"

subsection \<open>The state of a session\<close>

datatype status = PLAYING | OVER

record spawn_parameters =
  sp_position :: vec2
  sp_velocity :: vec2
  sp_direction :: vec2
  sp_angular_velocity :: real

text \<open>The counters of the heads-up display are modelled by their counts.\<close>

record game =
  window_size :: "int \<times> int"
  foreground_color :: color
  g_config :: "config option"
  initial_lives :: int
  asteroids_count :: int
  fragments_count :: int
  respawn_period :: real
  ship_spawn_parameters :: spawn_parameters
  g_ship :: ship
  score :: int
  level :: int
  respawn_timer :: real
  lives :: int
  asteroids :: "asteroid list"
  bullets :: "bullet list"

definition default_initial_lives :: int where
  "default_initial_lives = 3"

definition default_asteroids_count :: int where
  "default_asteroids_count = 3"

definition default_fragments_count :: int where
  "default_fragments_count = 2"

definition default_respawn_period :: real where
  "default_respawn_period = 3"

subsection \<open>Spawning asteroids\<close>

text \<open>
  The \<^verbatim>\<open>while True\<close> loop of \<^verbatim>\<open>Game._spawn_asteroids\<close>: positions are drawn until one is
  not within the asteroid's radius of a living ship. The loop does not end when every
  draw is rejected; the result is then \<open>None\<close>.
\<close>

partial_function (option) place_asteroid ::
  "ship \<Rightarrow> int \<times> int \<Rightarrow> real \<Rightarrow> rng \<Rightarrow> (vec2 \<times> rng) option" where
  "place_asteroid s win d g =
     (let pg = generate_position win g;
          separation = norm2 (vsub (proj2 (r_cm s)) (fst pg))
      in if s_alive s \<and> separation \<le> d / 2 then place_asteroid s win d (snd pg)
         else Some pg)"

text \<open>The \<^verbatim>\<open>for\<close> loop of \<^verbatim>\<open>Game._spawn_asteroids\<close>, with the number of asteroids still to
  spawn. The diameter and the velocity are generated without a configuration, and the
  asteroid is constructed without one, as in the source.\<close>

fun spawn_loop ::
  "externals \<Rightarrow> game \<Rightarrow> nat \<Rightarrow> rng \<Rightarrow> (error + (asteroid list \<times> rng)) option" where
  "spawn_loop ext gm 0 g = Some (Inr ([], g))"
| "spawn_loop ext gm (Suc n) g =
     (case generate_diameter None g of
        Inl e \<Rightarrow> Some (Inl e)
      | Inr (d, g1) \<Rightarrow>
          (case place_asteroid (g_ship gm) (window_size gm) d g1 of
             None \<Rightarrow> None
           | Some (pos, g2) \<Rightarrow>
               (case generate_velocity None g2 of
                  Inl e \<Rightarrow> Some (Inl e)
                | Inr (velocity, g3) \<Rightarrow>
                    let speed_multiplier = (real_of_int (level gm) + 9) / 10;
                        a = Asteroid_init ext d pos (smul speed_multiplier velocity)
                              (foreground_color gm) None
                    in (case spawn_loop ext gm n g3 of
                          None \<Rightarrow> None
                        | Some (Inl e) \<Rightarrow> Some (Inl e)
                        | Some (Inr (new_asteroids, g4)) \<Rightarrow>
                            Some (Inr (a # new_asteroids, g4))))))"

definition spawn_asteroids ::
  "externals \<Rightarrow> game \<Rightarrow> rng \<Rightarrow> (error + (asteroid list \<times> rng)) option" where
  "spawn_asteroids ext gm g = spawn_loop ext gm (nat (asteroids_count gm)) g"


subsection \<open>Collisions\<close>

text \<open>
  The two lists of living bodies are made once, before the loops, and hold the same
  objects as the lists of the game. The model keeps their indices: an explosion marks the
  asteroid at its index dead and appends the fragments, so every index stays valid.
  A body that dies during the loops stays in the lists made before.
\<close>

definition living_asteroids :: "game \<Rightarrow> nat list" where
  "living_asteroids gm = filter (\<lambda>i. a_alive (asteroids gm ! i)) [0..<length (asteroids gm)]"

definition living_bullets :: "game \<Rightarrow> nat list" where
  "living_bullets gm = filter (\<lambda>j. b_alive (bullets gm ! j)) [0..<length (bullets gm)]"

text \<open>The inner loop of \<^verbatim>\<open>Game._handle_asteroid_bullet_collisions\<close>, for the bullet at
  index \<open>j\<close>.\<close>

fun bullet_hits :: "externals \<Rightarrow> nat \<Rightarrow> nat list \<Rightarrow> game \<Rightarrow> error + game" where
  "bullet_hits ext j [] gm = Inr gm"
| "bullet_hits ext j (i # is) gm =
     (let b = bullets gm ! j;
          a = asteroids gm ! i;
          separation = norm2 (vsub (b_r b) (a_r a))
      in if separation \<le> diameter a / 2
         then (case explode ext a (fragments_count gm) of
                 Inl e \<Rightarrow> Inl e
               | Inr (fragments, a') \<Rightarrow>
                   bullet_hits ext j is
                     (gm\<lparr> asteroids := (asteroids gm)[i := a'] @ fragments,
                          bullets := (bullets gm)[j := Bullet_explode b],
                          score := score gm + 1 \<rparr>))
         else bullet_hits ext j is gm)"

fun bullets_hit :: "externals \<Rightarrow> nat list \<Rightarrow> nat list \<Rightarrow> game \<Rightarrow> error + game" where
  "bullets_hit ext [] is gm = Inr gm"
| "bullets_hit ext (j # js) is gm =
     (case bullet_hits ext j is gm of
        Inl e \<Rightarrow> Inl e
      | Inr gm' \<Rightarrow> bullets_hit ext js is gm')"

definition handle_asteroid_bullet_collisions :: "externals \<Rightarrow> game \<Rightarrow> error + game" where
  "handle_asteroid_bullet_collisions ext gm =
     bullets_hit ext (living_bullets gm) (living_asteroids gm) gm"

text \<open>The loop of \<^verbatim>\<open>Game._handle_asteroid_ship_collisions\<close>.\<close>

fun ship_hits :: "externals \<Rightarrow> nat list \<Rightarrow> game \<Rightarrow> error + game" where
  "ship_hits ext [] gm = Inr gm"
| "ship_hits ext (i # is) gm =
     (let a = asteroids gm ! i;
          separation = norm2 (vsub (proj2 (r_cm (g_ship gm))) (a_r a))
      in if separation \<le> diameter a / 2
         then (case explode ext a (fragments_count gm) of
                 Inl e \<Rightarrow> Inl e
               | Inr (fragments, a') \<Rightarrow>
                   ship_hits ext is
                     (gm\<lparr> g_ship := Ship_explode (g_ship gm),
                          asteroids := (asteroids gm)[i := a'] @ fragments,
                          respawn_timer := respawn_period gm \<rparr>))
         else ship_hits ext is gm)"

definition handle_asteroid_ship_collisions :: "externals \<Rightarrow> game \<Rightarrow> error + game" where
  "handle_asteroid_ship_collisions ext gm =
     (if \<not> s_alive (g_ship gm) then Inr gm
      else ship_hits ext (living_asteroids gm) gm)"

subsection \<open>One frame\<close>

text \<open>
  \<^verbatim>\<open>Game.tick\<close> is modelled block by block, in the order of the source.
  \<open>tick_sprites\<close> is the block "Update all sprite positions, including boundary
  crossings".
\<close>

definition tick_sprites :: "externals \<Rightarrow> real \<Rightarrow> game \<Rightarrow> game" where
  "tick_sprites ext dt gm =
     gm\<lparr> g_ship := wrap_ship (window_size gm) (Ship_tick ext (g_ship gm) dt),
         bullets := map (\<lambda>b. wrap_bullet (window_size gm) (Bullet_tick b dt)) (bullets gm),
         asteroids := map (\<lambda>a. wrap_asteroid (window_size gm) (Asteroid_tick a dt))
                        (asteroids gm) \<rparr>"

text \<open>The block "Increment the level and spawn new asteroids if they have all been
  destroyed".\<close>

definition tick_level :: "externals \<Rightarrow> game \<Rightarrow> rng \<Rightarrow> (error + (game \<times> rng)) option" where
  "tick_level ext gm g =
     (let any_asteroids_alive = list_ex a_alive (asteroids gm)
      in if \<not> any_asteroids_alive \<and> (s_alive (g_ship gm) \<or> lives gm > 0)
         then let gm1 = gm\<lparr>level := level gm + 1\<rparr>
              in (case spawn_asteroids ext gm1 g of
                    None \<Rightarrow> None
                  | Some (Inl e) \<Rightarrow> Some (Inl e)
                  | Some (Inr (new_asteroids, g')) \<Rightarrow>
                      Some (Inr (gm1\<lparr>asteroids := new_asteroids\<rparr>, g')))
         else Some (Inr (gm, g)))"

text \<open>The block "Handle collisions between sprites".\<close>

definition handle_collisions :: "externals \<Rightarrow> game \<Rightarrow> error + game" where
  "handle_collisions ext gm =
     (case handle_asteroid_bullet_collisions ext gm of
        Inl e \<Rightarrow> Inl e
      | Inr gm1 \<Rightarrow> handle_asteroid_ship_collisions ext gm1)"

text \<open>The blocks of \<^verbatim>\<open>Game.tick\<close> before the respawn timer is touched.\<close>

definition tick_update ::
  "externals \<Rightarrow> game \<Rightarrow> real \<Rightarrow> rng \<Rightarrow> (error + (game \<times> rng)) option" where
  "tick_update ext gm dt g =
     (case handle_collisions ext gm of
        Inl e \<Rightarrow> Some (Inl e)
      | Inr gm1 \<Rightarrow> tick_level ext (tick_sprites ext dt gm1) g)"

text \<open>The block "Decrement the respawn timer and spawn a new ship if appropriate, or end
  the game", with the value \<^verbatim>\<open>Game.tick\<close> returns.\<close>

definition tick_respawn :: "externals \<Rightarrow> real \<Rightarrow> game \<Rightarrow> status \<times> game" where
  "tick_respawn ext dt gm =
     (let gm1 = gm\<lparr>respawn_timer := respawn_timer gm - dt\<rparr>
      in if \<not> s_alive (g_ship gm1) \<and> respawn_timer gm1 \<le> 1
         then if lives gm1 \<le> 0 then (OVER, gm1)
              else (PLAYING,
                    gm1\<lparr> lives := lives gm1 - 1,
                         g_ship := Ship_init ext
                                     (sp_position (ship_spawn_parameters gm1))
                                     (sp_velocity (ship_spawn_parameters gm1))
                                     (sp_direction (ship_spawn_parameters gm1))
                                     (sp_angular_velocity (ship_spawn_parameters gm1))
                                     (foreground_color gm1)
                                     (g_config gm1) \<rparr>)
         else (PLAYING, gm1))"

text \<open>\<^verbatim>\<open>Game.tick\<close>: the status returned, the game and the generator after the call; an
  exception; or \<open>None\<close> when the spawning loop does not end.\<close>

definition tick ::
  "externals \<Rightarrow> game \<Rightarrow> real \<Rightarrow> rng \<Rightarrow> (error + (status \<times> game \<times> rng)) option" where
  "tick ext gm dt g =
     (case tick_update ext gm dt g of
        None \<Rightarrow> None
      | Some (Inl e) \<Rightarrow> Some (Inl e)
      | Some (Inr (gm1, g')) \<Rightarrow>
          (case tick_respawn ext dt gm1 of (st, gm2) \<Rightarrow> Some (Inr (st, gm2, g'))))"

subsection \<open>Construction and events\<close>

text \<open>The dictionary \<^verbatim>\<open>self._ship_spawn_parameters\<close> that \<^verbatim>\<open>Game.__init__\<close> builds.\<close>

definition initial_spawn_parameters :: "int \<times> int \<Rightarrow> spawn_parameters" where
  "initial_spawn_parameters win =
     \<lparr> sp_position = (real_of_int (fst win) / 2, real_of_int (snd win) / 2),
       sp_velocity = (0, 0),
       sp_direction = (0, -1),
       sp_angular_velocity = 0 \<rparr>"

text \<open>\<^verbatim>\<open>Game.__init__\<close>.\<close>

definition Game_init ::
  "externals \<Rightarrow> int \<times> int \<Rightarrow> color \<Rightarrow> config option \<Rightarrow> rng \<Rightarrow> (error + (game \<times> rng)) option"
  where
  "Game_init ext win col cfg g =
     (let sp = initial_spawn_parameters win;
          rp = (case cfg of Some c \<Rightarrow> game_respawn_period c | None \<Rightarrow> default_respawn_period);
          il = (case cfg of Some c \<Rightarrow> game_initial_lives c | None \<Rightarrow> default_initial_lives);
          gm = \<lparr> window_size = win,
                 foreground_color = col,
                 g_config = cfg,
                 initial_lives = il,
                 asteroids_count =
                   (case cfg of Some c \<Rightarrow> game_asteroids_count c | None \<Rightarrow> default_asteroids_count),
                 fragments_count =
                   (case cfg of Some c \<Rightarrow> game_fragments_count c | None \<Rightarrow> default_fragments_count),
                 respawn_period = rp,
                 ship_spawn_parameters = sp,
                 g_ship = Ship_init ext (sp_position sp) (sp_velocity sp) (sp_direction sp)
                            (sp_angular_velocity sp) col cfg,
                 score = 0,
                 level = 1,
                 respawn_timer = rp,
                 lives = il - 1,
                 asteroids = [],
                 bullets = [] \<rparr>
      in case spawn_asteroids ext gm g of
           None \<Rightarrow> None
         | Some (Inl e) \<Rightarrow> Some (Inl e)
         | Some (Inr (new_asteroids, g')) \<Rightarrow> Some (Inr (gm\<lparr>asteroids := new_asteroids\<rparr>, g')))"

text \<open>\<^verbatim>\<open>Game.handle_event\<close>. The ship handles the key-down and key-up events.\<close>

fun Game_handle_event :: "game \<Rightarrow> event \<Rightarrow> game" where
  "Game_handle_event gm OTHER_EVENT = gm"
| "Game_handle_event gm e =
     (case handle_event (g_ship gm) e of
        (Some (BULLET_FIRED b), s') \<Rightarrow> gm\<lparr>g_ship := s', bullets := bullets gm @ [b]\<rparr>
      | (None, s') \<Rightarrow> gm\<lparr>g_ship := s'\<rparr>)"

section \<open>Example inputs\<close>

text \<open>Externals for the examples: pygame truncates the sides of a surface, the rotated
  image keeps the size of the prototype, and the solver returns its first guess.\<close>

definition example_externals :: externals where
  "example_externals =
     \<lparr> surface_dim = (\<lambda>d. \<lfloor>d\<rfloor>),
       rotated_size = (\<lambda>sz u. sz),
       root = (\<lambda>f v0. v0) \<rparr>"

text \<open>A white asteroid of the default profile.\<close>

definition example_asteroid :: "real \<Rightarrow> vec2 \<Rightarrow> vec2 \<Rightarrow> asteroid" where
  "example_asteroid d p v = Asteroid_init example_externals d p v (255, 255, 255) None"

text \<open>A white ship of the default profile, at rest in the middle of a window of 800 by
  600 pixels, heading up; and the same ship just after it has fired.\<close>

definition example_ship :: ship where
  "example_ship = Ship_init example_externals (400, 300) (0, 0) (0, -1) 0 (255, 255, 255) None"

definition example_ship_fired :: ship where
  "example_ship_fired = snd (handle_event example_ship (KEYDOWN K_SPACE))"

text \<open>A session of the default profile in a window of 800 by 600 pixels, with the given
  ship, lives, respawn timer, asteroids and bullets.\<close>

definition example_game :: "ship \<Rightarrow> int \<Rightarrow> real \<Rightarrow> asteroid list \<Rightarrow> bullet list \<Rightarrow> game" where
  "example_game s n t as bs =
     \<lparr> window_size = (800, 600),
       foreground_color = (255, 255, 255),
       g_config = None,
       initial_lives = default_initial_lives,
       asteroids_count = default_asteroids_count,
       fragments_count = default_fragments_count,
       respawn_period = default_respawn_period,
       ship_spawn_parameters = initial_spawn_parameters (800, 600),
       g_ship = s,
       score = 0,
       level = 1,
       respawn_timer = t,
       lives = n,
       asteroids = as,
       bullets = bs \<rparr>"

text \<open>A generator all of whose variates are one quarter.\<close>

definition example_rng :: rng where
  "example_rng = (\<lambda>n. 1 / 4)"

text \<open>The example ship after an explosion; a dead bullet; and a session whose ship, only
  bullet and first asteroid are dead, while its second asteroid is alive.\<close>

definition example_dead_ship :: ship where
  "example_dead_ship = Ship_explode example_ship"

definition example_dead_bullet :: bullet where
  "example_dead_bullet = Bullet_explode (Bullet_init (10, 10) (0, 0) (1, 0) (255, 255, 255) None)"

definition example_dead_asteroid :: asteroid where
  "example_dead_asteroid = (example_asteroid 40 (100, 100) (60, 0))\<lparr>a_alive := False\<rparr>"

definition example_session :: game where
  "example_session =
     example_game example_dead_ship 1 3
       [example_dead_asteroid, example_asteroid 40 (700, 500) (0, 0)]
       [example_dead_bullet]"


definition example_asteroid_33 :: asteroid where
  "example_asteroid_33 =
     (example_asteroid (237005335979117 / 4398046511104) (0, 0) (0, 0))\<lparr>a_minimum_diameter := 33\<rparr>"


section \<open>Rounding\<close>

lemma pow2_pos: "0 < pow2 e"
  by (simp add: pow2_def)

lemma pow2_powr: "pow2 e = 2 powr real_of_int e"
  by (simp add: pow2_def powr_real_of_int inverse_eq_divide)

lemma floor_log2:
  assumes "pow2 k \<le> y" and "y < pow2 (k + 1)"
  shows "\<lfloor>log 2 y\<rfloor> = k"
proof -
  have y: "0 < y" using assms(1) pow2_pos [of k] by linarith
  have "real_of_int k \<le> log 2 y"
    using assms(1) y by (simp add: pow2_powr le_log_iff)
  moreover have "log 2 y < real_of_int k + 1"
    using assms(2) y by (simp add: pow2_powr log_less_iff add.commute)
  ultimately show ?thesis by (simp add: floor_unique)
qed

lemma round_half_even_near:
  assumes "\<bar>y - real_of_int m\<bar> < 1 / 2"
  shows "round_half_even y = m"
proof -
  from assms have lo: "real_of_int m - 1 / 2 < y" and hi: "y < real_of_int m + 1 / 2"
    unfolding abs_less_iff by linarith+
  show ?thesis
  proof (cases "real_of_int m \<le> y")
    case True
    with hi have f: "\<lfloor>y\<rfloor> = m" by (intro floor_unique) linarith+
    have "y - real_of_int m < 1 / 2" using hi by linarith
    then show ?thesis by (simp add: round_half_even_def Let_def f)
  next
    case False
    have c: "real_of_int (m - 1) = real_of_int m - 1" by simp
    have f: "\<lfloor>y\<rfloor> = m - 1"
    proof (rule floor_unique)
      show "real_of_int (m - 1) \<le> y" unfolding c using lo by linarith
      show "y < real_of_int (m - 1) + 1" unfolding c using False by linarith
    qed
    have "1 / 2 < y - real_of_int (m - 1)" unfolding c using lo by linarith
    then show ?thesis by (simp add: round_half_even_def Let_def f)
  qed
qed

lemma round_double_finite:
  assumes "- 1074 \<le> e" and "m \<noteq> 0"
    and "pow2 (e + 52) \<le> \<bar>x\<bar>" and "\<bar>x\<bar> < pow2 (e + 53)"
    and "\<bar>x / pow2 e - real_of_int m\<bar> < 1 / 2"
    and "\<bar>real_of_int m * pow2 e\<bar> < 2 ^ 1024"
  shows "round_double x = Finite (real_of_int m * pow2 e)"
proof -
  have "\<lfloor>log 2 \<bar>x\<bar>\<rfloor> = e + 52"
    using assms(3,4) by (intro floor_log2) (simp_all add: add.commute add.left_commute)
  then have e: "ulp_exponent x = e"
    using assms(1) by (simp add: ulp_exponent_def)
  have m: "round_half_even (x / pow2 e) = m"
    by (rule round_half_even_near [OF assms(5)])
  show ?thesis
    using assms(2,6) by (simp add: round_double_def Let_def e m)
qed

lemma round_double_sqrt:
  assumes "- 1074 \<le> e" and "0 < m"
    and "(pow2 (e + 52))\<^sup>2 \<le> x" and "x < (pow2 (e + 53))\<^sup>2"
    and "((real_of_int m - 1 / 2) * pow2 e)\<^sup>2 < x"
    and "x < ((real_of_int m + 1 / 2) * pow2 e)\<^sup>2"
    and "real_of_int m * pow2 e < 2 ^ 1024"
  shows "round_double (sqrt x) = Finite (real_of_int m * pow2 e)"
proof -
  have p: "0 < pow2 e" by (rule pow2_pos)
  have x: "0 \<le> x" using assms(3) by (meson order_trans zero_le_power2)
  have s: "0 \<le> sqrt x" using x by simp
  have lo: "pow2 (e + 52) \<le> sqrt x"
    by (rule real_le_rsqrt [OF assms(3)])
  have hi: "sqrt x < pow2 (e + 53)"
    using assms(4) pow2_pos [of "e + 53"] by (intro real_less_lsqrt) simp_all
  have a: "(real_of_int m - 1 / 2) * pow2 e < sqrt x"
    by (rule real_less_rsqrt [OF assms(5)])
  have "0 \<le> (real_of_int m + 1 / 2) * pow2 e" using assms(2) p by simp
  then have b: "sqrt x < (real_of_int m + 1 / 2) * pow2 e"
    using assms(6) by (intro real_less_lsqrt) simp_all
  from a p have a': "real_of_int m - 1 / 2 < sqrt x / pow2 e"
    by (simp add: pos_less_divide_eq)
  from b p have b': "sqrt x / pow2 e < real_of_int m + 1 / 2"
    by (simp add: pos_divide_less_eq)
  have near: "\<bar>sqrt x / pow2 e - real_of_int m\<bar> < 1 / 2"
    using a' b' by linarith
  have bound: "\<bar>real_of_int m * pow2 e\<bar> < 2 ^ 1024"
    using assms(2,7) p by (simp add: abs_mult)
  show ?thesis
    using assms(1,2) lo hi s near bound by (intro round_double_finite) simp_all
qed

text \<open>The roundings of the examples.\<close>

lemma float_of_int_1: "float_of_int 1 = Inr 1"
  using round_double_finite [of "- 52" 4503599627370496 1]
  by (simp add: float_of_int_def pow2_def)

lemma float_of_int_2: "float_of_int 2 = Inr 2"
  using round_double_finite [of "- 51" 4503599627370496 2]
  by (simp add: float_of_int_def pow2_def)


lemma float_of_int_30: "float_of_int 30 = Inr 30"
  using round_double_finite [of "- 48" 8444249301319680 30]
  by (simp add: float_of_int_def pow2_def)

lemma float_of_int_33: "float_of_int 33 = Inr 33"
  using round_double_finite [of "- 47" 4644337115725824 33]
  by (simp add: float_of_int_def pow2_def)

lemma quotient_1: "double_div (3 / 4) (Finite (1)) = Finite (3 / 4)"
  using round_double_finite [of "- 53" 6755399441055744 "(3 / 4) / (1)"]
  by (simp add: pow2_def)

lemma quotient_2: "double_div (3 / 4) (Finite (2)) = Finite (3 / 8)"
  using round_double_finite [of "- 54" 6755399441055744 "(3 / 4) / (2)"]
  by (simp add: pow2_def)


lemma ratio_1: "double_sqrt (Finite (3 / 4)) = Finite (3900231685776981 / 4503599627370496)"
  using round_double_sqrt [of "- 53" 7800463371553962 "3 / 4"]
  by (simp add: pow2_def power2_eq_square)

lemma ratio_2: "double_sqrt (Finite (3 / 8)) = Finite (2757880273211543 / 4503599627370496)"
  using round_double_sqrt [of "- 53" 5515760546423086 "3 / 8"]
  by (simp add: pow2_def power2_eq_square)


lemma bound_30_1: "double_div (30) (Finite (3900231685776981 / 4503599627370496)) = Finite (4875289607221227 / 140737488355328)"
  using round_double_finite [of "- 47" 4875289607221227 "(30) / (3900231685776981 / 4503599627370496)"]
  by (simp add: pow2_def)

lemma bound_30_2: "double_div (30) (Finite (2757880273211543 / 4503599627370496)) = Finite (6894700683028859 / 140737488355328)"
  using round_double_finite [of "- 47" 6894700683028859 "(30) / (2757880273211543 / 4503599627370496)"]
  by (simp add: pow2_def)

lemma bound_33_2: "double_div (33) (Finite (2757880273211543 / 4503599627370496)) = Finite (7584170751331745 / 140737488355328)"
  using round_double_finite [of "- 47" 7584170751331745 "(33) / (2757880273211543 / 4503599627370496)"]
  by (simp add: pow2_def)


lemma product_2: "double_mul (Finite (2757880273211543 / 4503599627370496)) (60) = Finite (5171025512271643 / 140737488355328)"
  using round_double_finite [of "- 47" 5171025512271643 "(2757880273211543 / 4503599627370496) * (60)"]
  by (simp add: pow2_def)



section \<open>Fragmentation\<close>

lemma example_asteroid_fields:
  "a_alive (example_asteroid d p v)"
  "a_image_size (example_asteroid d p v) = (\<lfloor>d\<rfloor>, \<lfloor>d\<rfloor>)"
  "a_r (example_asteroid d p v) = p"
  "a_v (example_asteroid d p v) = v"
  "diameter (example_asteroid d p v) = d"
  "a_area_ratio (example_asteroid d p v) = 3 / 4"
  "a_minimum_diameter (example_asteroid d p v) = 30"
  "a_color (example_asteroid d p v) = (255, 255, 255)"
  "a_config (example_asteroid d p v) = None"
  by (simp_all add: example_asteroid_def Asteroid_init_def example_externals_def
      default_area_ratio_def default_minimum_diameter_def)

lemma system_of_equations_returns:
  "2 \<le> N \<Longrightarrow> \<exists>y. system_of_equations a N v = Inr y"
  by (simp add: system_of_equations_def Let_def)

lemma system_of_equations_raises:
  "N < 2 \<Longrightarrow> system_of_equations a N v = Inl ValueError"
  by (simp add: system_of_equations_def Let_def)

lemma explode_then:
  assumes "diameter_ratio a N = Inr ratio"
    and "float_of_int (a_minimum_diameter a) = Inr minimum"
    and "less_double (diameter a) (double_div minimum ratio)"
  shows "explode ext a N = Inr ([], a\<lparr>a_alive := False\<rparr>)"
  using assms by (simp add: explode_def Let_def)

lemma explode_else:
  assumes "2 \<le> N"
    and "diameter_ratio a N = Inr ratio"
    and "float_of_int (a_minimum_diameter a) = Inr minimum"
    and "\<not> less_double (diameter a) (double_div minimum ratio)"
    and "finite_value (double_mul ratio (diameter a)) = Some d"
  shows "explode ext a N
           = Inr (map (\<lambda>k. (Asteroid_init ext d (a_r a) (0, 0) (a_color a) (a_config a))
                            \<lparr>a_v := (root ext
                                        (\<lambda>v. case system_of_equations a N v of
                                                Inr y \<Rightarrow> y | Inl _ \<Rightarrow> [])
                                        (replicate (2 * nat N) 0) ! (2 * k),
                                      root ext
                                        (\<lambda>v. case system_of_equations a N v of
                                                Inr y \<Rightarrow> y | Inl _ \<Rightarrow> [])
                                        (replicate (2 * nat N) 0) ! (2 * k + 1))\<rparr>)
                    [0..<nat N],
                  a\<lparr>a_alive := False\<rparr>)"
proof -
  obtain y where "system_of_equations a N (replicate (2 * nat N) 0) = Inr y"
    using system_of_equations_returns [OF assms(1)] by blast
  then show ?thesis
    using assms by (simp add: explode_def Let_def del: replicate.simps)
qed


text \<open>
  The sign of a zero matters in the test. With an area ratio of zero and a negative
  count the quotient is the negative zero, and so is its square root; a positive minimum
  diameter divided by it is minus infinity, the comparison is false, and \<^verbatim>\<open>numpy.zeros\<close>
  raises ValueError for the negative count.
\<close>

lemma float_of_int_minus_2: "float_of_int (- 2) = Inr (- 2)"
  using round_double_finite [of "- 51" "- 4503599627370496" "- 2"]
  by (simp add: float_of_int_def pow2_def)

lemma explode_negative_zero:
  assumes "a_area_ratio a = 0" and "a_minimum_diameter a = 30"
  shows "diameter_ratio a (- 2) = Inr NegZero"
    and "double_div 30 NegZero = MinusInf"
    and "explode ext a (- 2) = Inl ValueError"
  using assms
  by (simp_all add: explode_def diameter_ratio_def float_of_int_minus_2 float_of_int_30 Let_def)





text \<open>
  C4, as the claim states it, fails in two ways. For a single fragment the system of
  equations has \<open>N - 2\<close> equal-angle equations, and for \<open>N = 1\<close> the array for them cannot
  be made: an asteroid of diameter 60 with the default profile is above the threshold
  for \<open>N = 1\<close>, and \<open>explode\<close> raises ValueError instead of returning one fragment. And at
  the rounding boundary the code's test differs from the threshold of the claim: for
  the asteroid of diameter 53.88877434122992 with a minimum diameter of 33 and two
  fragments, the diameter times \<open>sqrt (area_ratio / 2)\<close> is not below 33, but the rounded
  quotient of 33 and the rounded square root is 53.888774341229926, above the
  diameter, and \<open>explode\<close> returns no fragments.
\<close>

lemma explode_single_fragment:
  assumes "diameter_ratio a 1 = Inr ratio"
    and "float_of_int (a_minimum_diameter a) = Inr minimum"
    and "\<not> less_double (diameter a) (double_div minimum ratio)"
  shows "explode ext a 1 = Inl ValueError"
  using assms
  by (simp add: explode_def Let_def system_of_equations_raises del: replicate.simps)

theorem explode_fragments_counterexample:
  "\<not> diameter (example_asteroid 60 (0, 0) (0, 0)) * sqrt (a_area_ratio (example_asteroid 60 (0, 0) (0, 0)) / real_of_int 1)
       < real_of_int (a_minimum_diameter (example_asteroid 60 (0, 0) (0, 0)))
   \<and> explode example_externals (example_asteroid 60 (0, 0) (0, 0)) 1 = Inl ValueError
   \<and> \<not> diameter example_asteroid_33 * sqrt (a_area_ratio example_asteroid_33 / real_of_int 2)
       < real_of_int (a_minimum_diameter example_asteroid_33)
   \<and> explode example_externals example_asteroid_33 2
       = Inr ([], example_asteroid_33\<lparr>a_alive := False\<rparr>)"
proof (intro conjI)
  have "1 / 2 \<le> sqrt (3 / 4 :: real)"
    by (rule real_le_rsqrt) (simp add: power2_eq_square)
  then show "\<not> diameter (example_asteroid 60 (0, 0) (0, 0)) * sqrt (a_area_ratio (example_asteroid 60 (0, 0) (0, 0)) / real_of_int 1)
       < real_of_int (a_minimum_diameter (example_asteroid 60 (0, 0) (0, 0)))"
    by (simp add: example_asteroid_fields)
next
  have r: "diameter_ratio (example_asteroid 60 (0, 0) (0, 0)) 1 = Inr (Finite (3900231685776981 / 4503599627370496))"
    by (simp add: diameter_ratio_def example_asteroid_fields
        float_of_int_1 quotient_1 ratio_1 del: double_div.simps double_sqrt.simps)
  have m: "float_of_int (a_minimum_diameter (example_asteroid 60 (0, 0) (0, 0))) = Inr 30"
    by (simp add: example_asteroid_fields float_of_int_30)
  have n: "\<not> less_double (diameter (example_asteroid 60 (0, 0) (0, 0))) (double_div 30 (Finite (3900231685776981 / 4503599627370496)))"
    by (simp add: bound_30_1 example_asteroid_fields del: double_div.simps)
  show "explode example_externals (example_asteroid 60 (0, 0) (0, 0)) 1 = Inl ValueError"
    by (rule explode_single_fragment [OF r m n])
next
  have "33 / (237005335979117 / 4398046511104 :: real) \<le> sqrt (3 / 8)"
    by (rule real_le_rsqrt) (simp add: power2_eq_square)
  then have "(33 :: real) \<le> (237005335979117 / 4398046511104) * sqrt (3 / 8)"
    by (simp add: pos_divide_le_eq mult.commute)
  then show "\<not> diameter example_asteroid_33
         * sqrt (a_area_ratio example_asteroid_33 / real_of_int 2)
       < real_of_int (a_minimum_diameter example_asteroid_33)"
    by (simp add: example_asteroid_33_def example_asteroid_fields)
next
  have r: "diameter_ratio example_asteroid_33 2 = Inr (Finite (2757880273211543 / 4503599627370496))"
    by (simp add: diameter_ratio_def example_asteroid_33_def example_asteroid_fields
        float_of_int_2 quotient_2 ratio_2 del: double_div.simps double_sqrt.simps)
  have m: "float_of_int (a_minimum_diameter example_asteroid_33) = Inr 33"
    by (simp add: example_asteroid_33_def float_of_int_33)
  have l: "less_double (diameter example_asteroid_33) (double_div 33 (Finite (2757880273211543 / 4503599627370496)))"
    by (simp add: bound_33_2 example_asteroid_33_def example_asteroid_fields
        del: double_div.simps)
  show "explode example_externals example_asteroid_33 2
       = Inr ([], example_asteroid_33\<lparr>a_alive := False\<rparr>)"
    by (rule explode_then [OF r m l])
qed

text \<open>
  C4, amended. For a fragment count \<open>N\<close> of at least two and an asteroid whose diameter
  is not less than the minimum diameter divided by the ratio \<open>sqrt (area_ratio / N)\<close>, in
  double arithmetic as the code computes it: when the rounded product of the ratio and
  the parent's diameter is a finite double \<open>d\<close>, \<open>explode\<close> returns exactly \<open>N\<close> asteroids,
  each alive, of diameter \<open>d\<close>, at the parent's position, with the parent's color and
  configuration; and the parent is dead afterwards.
\<close>

theorem explode_fragments:
  assumes "2 \<le> N"
    and "diameter_ratio a N = Inr ratio"
    and "float_of_int (a_minimum_diameter a) = Inr minimum"
    and "\<not> less_double (diameter a) (double_div minimum ratio)"
    and "finite_value (double_mul ratio (diameter a)) = Some d"
  shows "\<exists>fragments.
           explode ext a N = Inr (fragments, a\<lparr>a_alive := False\<rparr>)
           \<and> int (length fragments) = N
           \<and> (\<forall>f \<in> set fragments.
                 diameter f = d
               \<and> a_r f = a_r a \<and> a_color f = a_color a \<and> a_config f = a_config a
               \<and> a_alive f)"
  using assms(1) unfolding explode_else [OF assms]
  by (auto simp add: Asteroid_init_def)

theorem explode_fragments_witness:
  "\<exists>fragments.
     explode example_externals (example_asteroid 60 (0, 0) (0, 0)) 2
       = Inr (fragments, (example_asteroid 60 (0, 0) (0, 0))\<lparr>a_alive := False\<rparr>)
     \<and> int (length fragments) = 2
     \<and> (\<forall>f \<in> set fragments.
           diameter f = 5171025512271643 / 140737488355328
         \<and> a_r f = a_r (example_asteroid 60 (0, 0) (0, 0))
         \<and> a_color f = a_color (example_asteroid 60 (0, 0) (0, 0))
         \<and> a_config f = a_config (example_asteroid 60 (0, 0) (0, 0))
         \<and> a_alive f)"
proof -
  have r: "diameter_ratio (example_asteroid 60 (0, 0) (0, 0)) 2 = Inr (Finite (2757880273211543 / 4503599627370496))"
    by (simp add: diameter_ratio_def example_asteroid_fields
        float_of_int_2 quotient_2 ratio_2 del: double_div.simps double_sqrt.simps)
  have m: "float_of_int (a_minimum_diameter (example_asteroid 60 (0, 0) (0, 0))) = Inr 30"
    by (simp add: example_asteroid_fields float_of_int_30)
  have n: "\<not> less_double (diameter (example_asteroid 60 (0, 0) (0, 0))) (double_div 30 (Finite (2757880273211543 / 4503599627370496)))"
    by (simp add: bound_30_2 example_asteroid_fields del: double_div.simps)
  have p: "finite_value (double_mul (Finite (2757880273211543 / 4503599627370496)) (diameter (example_asteroid 60 (0, 0) (0, 0)))) = Some (5171025512271643 / 140737488355328)"
    using product_2 by (simp add: example_asteroid_fields del: double_mul.simps)
  show ?thesis
    by (rule explode_fragments [OF _ r m n p]) simp
qed


section \<open>Firing\<close>

lemma Ship_tick_reloading: "reloading (Ship_tick ext s dt) = reloading s - dt"
  by (simp add: Ship_tick_def Let_def split: prod.splits)

lemma Ship_init_reloading: "reloading (Ship_init ext p v d w col cfg) = 0"
  by (simp add: Ship_init_def Let_def Ship_tick_reloading)

lemma example_ship_reloading: "reloading example_ship = 0"
  by (simp add: example_ship_def Ship_init_reloading)

lemma Ship_tick_reload_period: "reload_period (Ship_tick ext s dt) = reload_period s"
  by (simp add: Ship_tick_def Let_def split: prod.splits)

lemma fire_bullet_ship: "snd (fire_bullet s) = s\<lparr>reloading := reload_period s\<rparr>"
  by (simp add: fire_bullet_def Let_def)

lemma example_ship_fired_reloading: "reloading example_ship_fired = 1"
  by (simp add: example_ship_fired_def example_ship_reloading fire_bullet_ship
      split_beta example_ship_def Ship_init_def Let_def Ship_tick_reload_period
      Ship_tick_reloading default_reload_period_def)

text \<open>
  C5. A fire request is the key-down event of the space key. With a reload timer of at
  most zero the request is answered with a bullet and the ship differs from before only
  in its reload timer, which is the reload period. The bullet is at the ship's position
  plus half the length along the heading; its velocity is the velocity of the centre of
  mass, plus half the length times the cross product of angular velocity and heading,
  plus the muzzle speed along the heading. With a positive reload timer there is no
  response and the ship is as before.
\<close>

theorem fire_request:
  "(reloading s \<le> 0 \<longrightarrow>
      (\<exists>b. handle_event s (KEYDOWN K_SPACE)
              = (Some (BULLET_FIRED b), s\<lparr>reloading := reload_period s\<rparr>)
          \<and> b_r b = vadd (proj2 (r_cm s))
                       (smul (real_of_int (s_length s) / 2) (proj2 (u_nose_cm s)))
          \<and> b_v b = vadd (vadd (proj2 (v_cm s))
                             (smul (real_of_int (s_length s) / 2)
                                (proj2 (cross3 (omega s) (u_nose_cm s)))))
                       (smul (b_muzzle_speed b) (proj2 (u_nose_cm s)))
          \<and> b_muzzle_speed b
              = (case s_config s of Some c \<Rightarrow> bullet_muzzle_speed c
                 | None \<Rightarrow> default_muzzle_speed)
          \<and> b_alive b))
   \<and> (\<not> reloading s \<le> 0 \<longrightarrow> handle_event s (KEYDOWN K_SPACE) = (None, s))"
  by (cases "r_cm s"; cases "v_cm s"; cases "u_nose_cm s"; cases "omega s")
     (simp add: fire_bullet_def Bullet_init_def Let_def)

theorem fire_request_witness:
  "(\<exists>b. handle_event example_ship (KEYDOWN K_SPACE)
          = (Some (BULLET_FIRED b), example_ship\<lparr>reloading := reload_period example_ship\<rparr>)
      \<and> b_r b = vadd (proj2 (r_cm example_ship))
                   (smul (real_of_int (s_length example_ship) / 2)
                      (proj2 (u_nose_cm example_ship)))
      \<and> b_v b = vadd (vadd (proj2 (v_cm example_ship))
                         (smul (real_of_int (s_length example_ship) / 2)
                            (proj2 (cross3 (omega example_ship) (u_nose_cm example_ship)))))
                   (smul (b_muzzle_speed b) (proj2 (u_nose_cm example_ship)))
      \<and> b_muzzle_speed b
          = (case s_config example_ship of Some c \<Rightarrow> bullet_muzzle_speed c
             | None \<Rightarrow> default_muzzle_speed)
      \<and> b_alive b)
   \<and> handle_event example_ship_fired (KEYDOWN K_SPACE) = (None, example_ship_fired)"
proof -
  have a: "reloading example_ship \<le> 0"
    by (simp add: example_ship_reloading)
  have b: "\<not> reloading example_ship_fired \<le> 0"
    by (simp add: example_ship_fired_reloading)
  show ?thesis
    by (rule conjI [OF fire_request [of example_ship, THEN conjunct1, THEN mp, OF a]
                       fire_request [of example_ship_fired, THEN conjunct2, THEN mp, OF b]])
qed

lemma Game_init_ship:
  assumes "Game_init ext win col cfg g = Some (Inr (gm, g'))"
  shows "g_ship gm = Ship_init ext (real_of_int (fst win) / 2, real_of_int (snd win) / 2)
                   (0, 0) (0, -1) 0 col cfg"
  using assms unfolding Game_init_def Let_def
  by (auto split: option.splits sum.splits simp add: initial_spawn_parameters_def)

lemma tick_respawn_ship:
  "g_ship (snd (tick_respawn ext dt gm)) = g_ship gm
   \<or> g_ship (snd (tick_respawn ext dt gm))
       = Ship_init ext (sp_position (ship_spawn_parameters gm))
           (sp_velocity (ship_spawn_parameters gm)) (sp_direction (ship_spawn_parameters gm))
           (sp_angular_velocity (ship_spawn_parameters gm)) (foreground_color gm) (g_config gm)"
  by (simp add: tick_respawn_def Let_def)

lemma handle_event_fire:
  "reloading s \<le> 0 \<Longrightarrow>
     handle_event s (KEYDOWN K_SPACE) = (Some (fst (fire_bullet s)), snd (fire_bullet s))"
  by (simp add: split_beta)

lemma fire_bullet_response: "\<exists>b. fst (fire_bullet s) = BULLET_FIRED b"
  by (simp add: fire_bullet_def Let_def)

text \<open>
  C10. The reload timer of a ship just constructed is zero, whatever the arguments of
  the constructor, and its first fire request is answered with a bullet. The ship of a
  new game is such a ship, and so is the ship that the last block of \<open>tick\<close> puts in
  place of a dead one.
\<close>

theorem new_ship_fires_at_once:
  "reloading (Ship_init ext p v d w col cfg) = 0
   \<and> (\<exists>b s'. handle_event (Ship_init ext p v d w col cfg) (KEYDOWN K_SPACE)
               = (Some (BULLET_FIRED b), s'))
   \<and> (Game_init ext win col cfg g = None
      \<or> (\<exists>e. Game_init ext win col cfg g = Some (Inl e))
      \<or> (\<exists>gm g'. Game_init ext win col cfg g = Some (Inr (gm, g'))
            \<and> reloading (g_ship gm) = 0))
   \<and> (g_ship (snd (tick_respawn ext dt gm0)) = g_ship gm0
      \<or> reloading (g_ship (snd (tick_respawn ext dt gm0))) = 0)"
proof (intro conjI)
  let ?s = "Ship_init ext p v d w col cfg"
  show "reloading ?s = 0"
    by (rule Ship_init_reloading)
  have "reloading ?s \<le> 0"
    by (simp add: Ship_init_reloading)
  then have "handle_event ?s (KEYDOWN K_SPACE)
               = (Some (fst (fire_bullet ?s)), snd (fire_bullet ?s))"
    by (rule handle_event_fire)
  moreover obtain b where "fst (fire_bullet ?s) = BULLET_FIRED b"
    using fire_bullet_response by blast
  ultimately show "\<exists>b s'. handle_event ?s (KEYDOWN K_SPACE) = (Some (BULLET_FIRED b), s')"
    by simp
  show "Game_init ext win col cfg g = None
      \<or> (\<exists>e. Game_init ext win col cfg g = Some (Inl e))
      \<or> (\<exists>gm g'. Game_init ext win col cfg g = Some (Inr (gm, g'))
            \<and> reloading (g_ship gm) = 0)"
  proof (cases "Game_init ext win col cfg g")
    case None
    then show ?thesis by simp
  next
    case (Some r)
    show ?thesis
    proof (cases r)
      case (Inl e)
      with Some show ?thesis by simp
    next
      case (Inr y)
      obtain gm g' where "y = (gm, g')" by (cases y)
      with Some Inr have eq: "Game_init ext win col cfg g = Some (Inr (gm, g'))" by simp
      have "reloading (g_ship gm) = 0"
        by (simp only: Game_init_ship [OF eq] Ship_init_reloading)
      with eq show ?thesis by blast
    qed
  qed
  show "g_ship (snd (tick_respawn ext dt gm0)) = g_ship gm0
      \<or> reloading (g_ship (snd (tick_respawn ext dt gm0))) = 0"
  proof (rule disjE [OF tick_respawn_ship [of ext dt gm0]])
    assume "g_ship (snd (tick_respawn ext dt gm0)) = g_ship gm0"
    then show ?thesis by (rule disjI1)
  next
    assume "g_ship (snd (tick_respawn ext dt gm0))
       = Ship_init ext (sp_position (ship_spawn_parameters gm0))
           (sp_velocity (ship_spawn_parameters gm0)) (sp_direction (ship_spawn_parameters gm0))
           (sp_angular_velocity (ship_spawn_parameters gm0)) (foreground_color gm0)
           (g_config gm0)"
    then have "reloading (g_ship (snd (tick_respawn ext dt gm0))) = 0"
      by (simp only: Ship_init_reloading)
    then show ?thesis by (rule disjI2)
  qed
qed

section \<open>The window boundary\<close>

lemma position_set_position [simp]: "position (set_position sp x) = x"
  by (cases sp; cases x) simp_all

lemma get_size_set_position [simp]: "get_size (set_position sp x) = get_size sp"
  by (cases sp) simp_all

lemma is_alive_set_position [simp]: "is_alive (set_position sp x) = is_alive sp"
  by (cases sp) simp_all

lemma wrap_dead: "\<not> is_alive sp \<Longrightarrow> handle_boundary_crossings win sp = sp"
  by (simp add: handle_boundary_crossings_def)

lemma wrap_x:
  "is_alive sp \<Longrightarrow>
     fst (position (handle_boundary_crossings win sp))
       = (if fst (position sp) < - real_of_int (fst (get_size sp)) / 2
          then real_of_int (fst win) + real_of_int (fst (get_size sp)) / 2
          else if fst (position sp) > real_of_int (fst win) + real_of_int (fst (get_size sp)) / 2
          then - real_of_int (fst (get_size sp)) / 2
          else fst (position sp))"
  by (simp add: handle_boundary_crossings_def Let_def)

lemma wrap_y:
  "is_alive sp \<Longrightarrow>
     snd (position (handle_boundary_crossings win sp))
       = (if snd (position sp) < - real_of_int (snd (get_size sp)) / 2
          then real_of_int (snd win) + real_of_int (snd (get_size sp)) / 2
          else if snd (position sp) > real_of_int (snd win) + real_of_int (snd (get_size sp)) / 2
          then - real_of_int (snd (get_size sp)) / 2
          else snd (position sp))"
  by (simp add: handle_boundary_crossings_def Let_def)

text \<open>
  C7. For a living body (ship, bullet or asteroid) in a window and with a bounding size
  that are not negative: a horizontal position below minus half the width becomes the
  window's width plus half the width; one above the window's width plus half the width
  becomes minus half the width; and the same holds vertically, with the heights.
\<close>

theorem wraparound_edges:
  assumes "is_alive sp"
    and "0 \<le> fst win" and "0 \<le> snd win"
    and "0 \<le> fst (get_size sp)" and "0 \<le> snd (get_size sp)"
  shows "(fst (position sp) < - real_of_int (fst (get_size sp)) / 2 \<longrightarrow>
            fst (position (handle_boundary_crossings win sp))
              = real_of_int (fst win) + real_of_int (fst (get_size sp)) / 2)
       \<and> (fst (position sp) > real_of_int (fst win) + real_of_int (fst (get_size sp)) / 2 \<longrightarrow>
            fst (position (handle_boundary_crossings win sp))
              = - real_of_int (fst (get_size sp)) / 2)
       \<and> (snd (position sp) < - real_of_int (snd (get_size sp)) / 2 \<longrightarrow>
            snd (position (handle_boundary_crossings win sp))
              = real_of_int (snd win) + real_of_int (snd (get_size sp)) / 2)
       \<and> (snd (position sp) > real_of_int (snd win) + real_of_int (snd (get_size sp)) / 2 \<longrightarrow>
            snd (position (handle_boundary_crossings win sp))
              = - real_of_int (snd (get_size sp)) / 2)"
proof -
  have x: "real_of_int (fst win) + real_of_int (fst (get_size sp)) / 2
             \<ge> - real_of_int (fst (get_size sp)) / 2"
    using assms(2,4) by simp
  have y: "real_of_int (snd win) + real_of_int (snd (get_size sp)) / 2
             \<ge> - real_of_int (snd (get_size sp)) / 2"
    using assms(3,5) by simp
  show ?thesis
    using x y by (simp add: wrap_x [OF assms(1)] wrap_y [OF assms(1)])
qed

theorem wraparound_edges_witness:
  "position (handle_boundary_crossings (800, 600)
               (Asteroid_sprite (example_asteroid 30 (-20, -20) (0, 0)))) = (815, 615)
   \<and> position (handle_boundary_crossings (800, 600)
               (Asteroid_sprite (example_asteroid 30 (820, 620) (0, 0)))) = (-15, -15)"
  using wraparound_edges [of "Asteroid_sprite (example_asteroid 30 (-20, -20) (0, 0))" "(800, 600)"]
    wraparound_edges [of "Asteroid_sprite (example_asteroid 30 (820, 620) (0, 0))" "(800, 600)"]
  by (simp add: example_asteroid_fields prod_eq_iff)

text \<open>
  C8, as the claim states it, fails. An asteroid of 30 pixels at \<open>x = -20\<close> in a window
  of 800 pixels has its left edge beyond the boundary; the step puts it at \<open>x = 815\<close>,
  which is neither \<open>x + 800\<close> nor \<open>x - 800\<close>.
\<close>

theorem wraparound_translation_counterexample:
  "is_alive (Asteroid_sprite (example_asteroid 30 (-20, 300) (0, 0)))
   \<and> fst (position (Asteroid_sprite (example_asteroid 30 (-20, 300) (0, 0))))
       - real_of_int (fst (get_size (Asteroid_sprite (example_asteroid 30 (-20, 300) (0, 0))))) / 2
       < 0
   \<and> fst (position (handle_boundary_crossings (800, 600)
                      (Asteroid_sprite (example_asteroid 30 (-20, 300) (0, 0)))))
       \<noteq> fst (position (Asteroid_sprite (example_asteroid 30 (-20, 300) (0, 0)))) + 800
   \<and> fst (position (handle_boundary_crossings (800, 600)
                      (Asteroid_sprite (example_asteroid 30 (-20, 300) (0, 0)))))
       \<noteq> fst (position (Asteroid_sprite (example_asteroid 30 (-20, 300) (0, 0)))) - 800"
  by (simp add: wrap_x example_asteroid_fields)

text \<open>
  C8, amended. For a living body in a window and with a bounding size that are not
  negative: when the body's centre is more than half its size beyond a window edge, so
  that the whole bounding box is outside, the step sets that coordinate to half the
  size beyond the opposite edge (the window's width plus half the width from the left,
  minus half the width from the right, and likewise vertically), which translates the
  body by more than the window's dimension plus the body's size; when the centre is
  within half the size of the window on an axis, the coordinate on that axis is
  unchanged.
\<close>

theorem wraparound_translation:
  assumes "is_alive sp"
    and "0 \<le> fst win" and "0 \<le> snd win"
    and "0 \<le> fst (get_size sp)" and "0 \<le> snd (get_size sp)"
  shows "(fst (position sp) < - real_of_int (fst (get_size sp)) / 2 \<longrightarrow>
            fst (position (handle_boundary_crossings win sp))
              = real_of_int (fst win) + real_of_int (fst (get_size sp)) / 2
          \<and> fst (position (handle_boundary_crossings win sp)) - fst (position sp)
              > real_of_int (fst win) + real_of_int (fst (get_size sp)))
       \<and> (fst (position sp) > real_of_int (fst win) + real_of_int (fst (get_size sp)) / 2 \<longrightarrow>
            fst (position (handle_boundary_crossings win sp))
              = - real_of_int (fst (get_size sp)) / 2
          \<and> fst (position sp) - fst (position (handle_boundary_crossings win sp))
              > real_of_int (fst win) + real_of_int (fst (get_size sp)))
       \<and> (- real_of_int (fst (get_size sp)) / 2 \<le> fst (position sp)
          \<and> fst (position sp) \<le> real_of_int (fst win) + real_of_int (fst (get_size sp)) / 2 \<longrightarrow>
            fst (position (handle_boundary_crossings win sp)) = fst (position sp))
       \<and> (snd (position sp) < - real_of_int (snd (get_size sp)) / 2 \<longrightarrow>
            snd (position (handle_boundary_crossings win sp))
              = real_of_int (snd win) + real_of_int (snd (get_size sp)) / 2
          \<and> snd (position (handle_boundary_crossings win sp)) - snd (position sp)
              > real_of_int (snd win) + real_of_int (snd (get_size sp)))
       \<and> (snd (position sp) > real_of_int (snd win) + real_of_int (snd (get_size sp)) / 2 \<longrightarrow>
            snd (position (handle_boundary_crossings win sp))
              = - real_of_int (snd (get_size sp)) / 2
          \<and> snd (position sp) - snd (position (handle_boundary_crossings win sp))
              > real_of_int (snd win) + real_of_int (snd (get_size sp)))
       \<and> (- real_of_int (snd (get_size sp)) / 2 \<le> snd (position sp)
          \<and> snd (position sp) \<le> real_of_int (snd win) + real_of_int (snd (get_size sp)) / 2 \<longrightarrow>
            snd (position (handle_boundary_crossings win sp)) = snd (position sp))"
proof -
  have x: "real_of_int (fst win) + real_of_int (fst (get_size sp)) / 2
             \<ge> - real_of_int (fst (get_size sp)) / 2"
    using assms(2,4) by simp
  have y: "real_of_int (snd win) + real_of_int (snd (get_size sp)) / 2
             \<ge> - real_of_int (snd (get_size sp)) / 2"
    using assms(3,5) by simp
  show ?thesis
    using x y by (simp add: wrap_x [OF assms(1)] wrap_y [OF assms(1)])
qed

theorem wraparound_translation_witness:
  "position (handle_boundary_crossings (800, 600)
               (Asteroid_sprite (example_asteroid 30 (-20, 620) (0, 0)))) = (815, -15)
   \<and> 815 - (-20) > (830 :: real) \<and> 620 - (-15) > (630 :: real)
   \<and> position (handle_boundary_crossings (800, 600)
               (Asteroid_sprite (example_asteroid 30 (820, -20) (0, 0)))) = (-15, 615)
   \<and> position (handle_boundary_crossings (800, 600)
               (Asteroid_sprite (example_asteroid 30 (5, 300) (0, 0)))) = (5, 300)"
  using wraparound_translation [of "Asteroid_sprite (example_asteroid 30 (-20, 620) (0, 0))"
          "(800, 600)"]
    wraparound_translation [of "Asteroid_sprite (example_asteroid 30 (820, -20) (0, 0))"
          "(800, 600)"]
    wraparound_translation [of "Asteroid_sprite (example_asteroid 30 (5, 300) (0, 0))"
          "(800, 600)"]
  by (simp add: example_asteroid_fields prod_eq_iff)


section \<open>Generated velocities\<close>

lemma norm2_nonneg: "0 \<le> norm2 v"
  by (cases v) simp

lemma exponential_scale_nonneg: "lo \<le> (hi::real) \<Longrightarrow> \<not> (hi - lo) / ln 2 < 0"
  by (simp add: not_less)

text \<open>
  C9. The direction of a generated velocity is the pair of uniform draws divided by its
  norm, and the draws are not negative. So for draws that are not negative and a minimum
  speed between zero and the median speed, \<open>generate_velocity\<close> returns a velocity, and
  neither component of it is negative: no draws give a velocity that points left or up.
\<close>

theorem generate_velocity_nonnegative:
  assumes "0 \<le> g 0" and "0 \<le> g 1" and "0 \<le> g 2"
    and "0 \<le> (case cfg of Some c \<Rightarrow> asteroid_minimum_speed c | None \<Rightarrow> default_minimum_speed)"
    and "(case cfg of Some c \<Rightarrow> asteroid_minimum_speed c | None \<Rightarrow> default_minimum_speed)
         \<le> (case cfg of Some c \<Rightarrow> asteroid_median_speed c | None \<Rightarrow> default_median_speed)"
  shows "\<exists>v g'. generate_velocity cfg g = Inr (v, g') \<and> 0 \<le> fst v \<and> 0 \<le> snd v"
proof -
  let ?lo = "case cfg of Some c \<Rightarrow> asteroid_minimum_speed c | None \<Rightarrow> default_minimum_speed"
  let ?hi = "case cfg of Some c \<Rightarrow> asteroid_median_speed c | None \<Rightarrow> default_median_speed"
  let ?beta = "(?hi - ?lo) / ln 2"
  let ?speed = "?beta * g 0 + ?lo"
  let ?n = "norm2 (g 1, g 2)"
  have beta: "\<not> ?beta < 0" using assms(5) by (rule exponential_scale_nonneg)
  then have b0: "0 \<le> ?beta" by (simp only: not_less)
  have "0 \<le> ?beta * g 0" by (rule mult_nonneg_nonneg [OF b0 assms(1)])
  then have speed: "0 \<le> ?speed" by (rule add_nonneg_nonneg [OF _ assms(4)])
  have n: "0 \<le> ?n" by (rule norm2_nonneg)
  have eq: "generate_velocity cfg g
              = Inr (smul ?speed (g 1 / ?n, g 2 / ?n), \<lambda>n. g (Suc n + 2))"
    using beta
    by (simp add: generate_velocity_def rng_exponential_def rng_uniform2_def Let_def
        numeral_2_eq_2)
  have "0 \<le> ?speed * (g 1 / ?n)"
    by (rule mult_nonneg_nonneg [OF speed divide_nonneg_nonneg [OF assms(2) n]])
  moreover have "0 \<le> ?speed * (g 2 / ?n)"
    by (rule mult_nonneg_nonneg [OF speed divide_nonneg_nonneg [OF assms(3) n]])
  ultimately have "0 \<le> fst (smul ?speed (g 1 / ?n, g 2 / ?n))
                 \<and> 0 \<le> snd (smul ?speed (g 1 / ?n, g 2 / ?n))"
    by (simp only: smul.simps fst_conv snd_conv simp_thms)
  with eq show ?thesis by blast
qed

theorem generate_velocity_nonnegative_witness:
  "\<exists>v g'. generate_velocity None (\<lambda>n. 1 / 2) = Inr (v, g') \<and> 0 \<le> fst v \<and> 0 \<le> snd v"
  using generate_velocity_nonnegative [of "\<lambda>n. 1 / 2" None]
  by (simp add: default_minimum_speed_def default_median_speed_def)

section \<open>One frame of the game\<close>

lemma bullet_hits_keeps:
  "bullet_hits ext j idx gm = Inr gm' \<Longrightarrow>
     lives gm' = lives gm \<and> level gm' = level gm \<and> window_size gm' = window_size gm
     \<and> ship_spawn_parameters gm' = ship_spawn_parameters gm
     \<and> foreground_color gm' = foreground_color gm \<and> g_config gm' = g_config gm"
proof (induction idx arbitrary: gm)
  case Nil
  then show ?case by simp
next
  case (Cons i idx)
  show ?case
  proof (cases "norm2 (vsub (b_r (bullets gm ! j)) (a_r (asteroids gm ! i)))
                  \<le> diameter (asteroids gm ! i) / 2")
    case True
    with Cons.prems obtain fragments a' where
      "bullet_hits ext j idx
         (gm\<lparr> asteroids := (asteroids gm)[i := a'] @ fragments,
              bullets := (bullets gm)[j := Bullet_explode (bullets gm ! j)],
              score := score gm + 1 \<rparr>) = Inr gm'"
      by (auto simp add: Let_def split: sum.splits)
    from Cons.IH [OF this] show ?thesis by simp
  next
    case False
    with Cons.prems have "bullet_hits ext j idx gm = Inr gm'" by (simp add: Let_def)
    from Cons.IH [OF this] show ?thesis .
  qed
qed

lemma bullets_hit_keeps:
  "bullets_hit ext js idx gm = Inr gm' \<Longrightarrow>
     lives gm' = lives gm \<and> level gm' = level gm \<and> window_size gm' = window_size gm
     \<and> ship_spawn_parameters gm' = ship_spawn_parameters gm
     \<and> foreground_color gm' = foreground_color gm \<and> g_config gm' = g_config gm"
proof (induction js arbitrary: gm)
  case Nil
  then show ?case by simp
next
  case (Cons j js)
  from Cons.prems obtain gm1 where h: "bullet_hits ext j idx gm = Inr gm1"
    and r: "bullets_hit ext js idx gm1 = Inr gm'"
    by (auto split: sum.splits)
  from bullet_hits_keeps [OF h] Cons.IH [OF r] show ?case by simp
qed

lemma ship_hits_keeps:
  "ship_hits ext idx gm = Inr gm' \<Longrightarrow>
     lives gm' = lives gm \<and> level gm' = level gm \<and> window_size gm' = window_size gm
     \<and> ship_spawn_parameters gm' = ship_spawn_parameters gm
     \<and> foreground_color gm' = foreground_color gm \<and> g_config gm' = g_config gm
     \<and> bullets gm' = bullets gm"
proof (induction idx arbitrary: gm)
  case Nil
  then show ?case by simp
next
  case (Cons i idx)
  show ?case
  proof (cases "norm2 (vsub (proj2 (r_cm (g_ship gm))) (a_r (asteroids gm ! i)))
                  \<le> diameter (asteroids gm ! i) / 2")
    case True
    with Cons.prems obtain fragments a' where
      "ship_hits ext idx
         (gm\<lparr> g_ship := Ship_explode (g_ship gm),
              asteroids := (asteroids gm)[i := a'] @ fragments,
              respawn_timer := respawn_period gm \<rparr>) = Inr gm'"
      by (auto simp add: Let_def split: sum.splits)
    from Cons.IH [OF this] show ?thesis by simp
  next
    case False
    with Cons.prems have "ship_hits ext idx gm = Inr gm'" by (simp add: Let_def)
    from Cons.IH [OF this] show ?thesis .
  qed
qed

lemma handle_collisions_keeps:
  assumes "handle_collisions ext gm = Inr gm'"
  shows "lives gm' = lives gm \<and> level gm' = level gm \<and> window_size gm' = window_size gm
     \<and> ship_spawn_parameters gm' = ship_spawn_parameters gm
     \<and> foreground_color gm' = foreground_color gm \<and> g_config gm' = g_config gm"
proof -
  from assms obtain gm1 where
    b: "bullets_hit ext (living_bullets gm) (living_asteroids gm) gm = Inr gm1"
    and s: "handle_asteroid_ship_collisions ext gm1 = Inr gm'"
    by (auto simp add: handle_collisions_def handle_asteroid_bullet_collisions_def
        split: sum.splits)
  note kb = bullets_hit_keeps [OF b]
  show ?thesis
  proof (cases "s_alive (g_ship gm1)")
    case True
    with s have "ship_hits ext (living_asteroids gm1) gm1 = Inr gm'"
      by (simp add: handle_asteroid_ship_collisions_def)
    from ship_hits_keeps [OF this] kb show ?thesis by simp
  next
    case False
    with s have "gm' = gm1" by (simp add: handle_asteroid_ship_collisions_def)
    with kb show ?thesis by simp
  qed
qed

lemma tick_sprites_keeps:
  "lives (tick_sprites ext dt gm) = lives gm"
  "level (tick_sprites ext dt gm) = level gm"
  "window_size (tick_sprites ext dt gm) = window_size gm"
  "ship_spawn_parameters (tick_sprites ext dt gm) = ship_spawn_parameters gm"
  "foreground_color (tick_sprites ext dt gm) = foreground_color gm"
  "g_config (tick_sprites ext dt gm) = g_config gm"
  by (simp_all add: tick_sprites_def)

lemma tick_level_keeps:
  assumes "tick_level ext gm g = Some (Inr (gm', g'))"
  shows "lives gm' = lives gm \<and> window_size gm' = window_size gm
     \<and> ship_spawn_parameters gm' = ship_spawn_parameters gm
     \<and> foreground_color gm' = foreground_color gm \<and> g_config gm' = g_config gm
     \<and> g_ship gm' = g_ship gm \<and> bullets gm' = bullets gm
     \<and> respawn_timer gm' = respawn_timer gm"
  using assms
  by (auto simp add: tick_level_def Let_def split: if_splits option.splits sum.splits)




lemma Ship_tick_alive: "s_alive (Ship_tick ext s dt) = s_alive s"
  by (simp add: Ship_tick_def Let_def split: prod.splits)

lemma Bullet_tick_dead:
  "\<not> b_alive b \<Longrightarrow>
     Bullet_tick b dt = b\<lparr>b_r := vadd (b_r b) (smul dt (b_v b)), b_age := b_age b + dt\<rparr>"
  by (simp add: Bullet_tick_def Bullet_explode_def Let_def)

lemma wrap_ship_dead: "\<not> s_alive s \<Longrightarrow> wrap_ship win s = s"
  by (simp add: wrap_ship_def wrap_dead)

lemma wrap_bullet_dead: "\<not> b_alive b \<Longrightarrow> wrap_bullet win b = b"
  by (simp add: wrap_bullet_def wrap_dead)

lemma wrap_asteroid_dead: "\<not> a_alive a \<Longrightarrow> wrap_asteroid win a = a"
  by (simp add: wrap_asteroid_def wrap_dead)

lemma wrap_kind:
  "(\<exists>s'. handle_boundary_crossings win (Ship_sprite s) = Ship_sprite s' \<and> s_alive s' = s_alive s)"
  "(\<exists>b'. handle_boundary_crossings win (Bullet_sprite b) = Bullet_sprite b' \<and> b_alive b' = b_alive b)"
  "(\<exists>a'. handle_boundary_crossings win (Asteroid_sprite a) = Asteroid_sprite a'
         \<and> a_alive a' = a_alive a)"
  by (simp_all add: handle_boundary_crossings_def Let_def)

lemma wrap_asteroid_alive: "a_alive (wrap_asteroid win a) = a_alive a"
  using wrap_kind(3) [of win a] by (auto simp add: wrap_asteroid_def)

lemma wrap_ship_alive: "s_alive (wrap_ship win s) = s_alive s"
  using wrap_kind(1) [of win s] by (auto simp add: wrap_ship_def)

lemma tick_sprites_any_alive:
  "list_ex a_alive (asteroids (tick_sprites ext dt gm)) = list_ex a_alive (asteroids gm)"
  by (simp add: tick_sprites_def list_ex_iff wrap_asteroid_alive Asteroid_tick_def)

lemma tick_sprites_ship_alive:
  "s_alive (g_ship (tick_sprites ext dt gm)) = s_alive (g_ship gm)"
  by (simp add: tick_sprites_def wrap_ship_alive Ship_tick_alive)

lemma tick_sprites_timer:
  "respawn_timer (tick_sprites ext dt gm) = respawn_timer gm"
  by (simp add: tick_sprites_def)

lemma living_bullets_none:
  "\<forall>b \<in> set (bullets gm). \<not> b_alive b \<Longrightarrow> living_bullets gm = []"
  by (simp add: living_bullets_def filter_empty_conv)

lemma tick_update_quiet:
  assumes "\<forall>b \<in> set (bullets gm). \<not> b_alive b"
    and "\<not> s_alive (g_ship gm)"
    and "list_ex a_alive (asteroids gm) \<or> lives gm \<le> 0"
  shows "tick_update ext gm dt g = Some (Inr (tick_sprites ext dt gm, g))"
proof -
  have "handle_collisions ext gm = Inr gm"
    using assms(2)
    by (simp add: handle_collisions_def handle_asteroid_bullet_collisions_def
        living_bullets_none [OF assms(1)] handle_asteroid_ship_collisions_def)
  moreover have "tick_level ext (tick_sprites ext dt gm) g = Some (Inr (tick_sprites ext dt gm, g))"
    using assms(2,3)
    by (auto simp add: tick_level_def Let_def tick_sprites_any_alive tick_sprites_ship_alive
        tick_sprites_keeps)
  ultimately show ?thesis by (simp add: tick_update_def)
qed

lemma example_dead_ship_dead: "\<not> s_alive example_dead_ship"
  by (simp add: example_dead_ship_def Ship_explode_def)

lemma example_game_fields:
  "window_size (example_game s n t as bs) = (800, 600)"
  "foreground_color (example_game s n t as bs) = (255, 255, 255)"
  "g_config (example_game s n t as bs) = None"
  "ship_spawn_parameters (example_game s n t as bs) = initial_spawn_parameters (800, 600)"
  "g_ship (example_game s n t as bs) = s"
  "level (example_game s n t as bs) = 1"
  "respawn_timer (example_game s n t as bs) = t"
  "lives (example_game s n t as bs) = n"
  "asteroids (example_game s n t as bs) = as"
  "bullets (example_game s n t as bs) = bs"
  by (simp_all add: example_game_def)


lemma tick_respawn_keeps:
  "bullets (snd (tick_respawn ext dt gm)) = bullets gm"
  "asteroids (snd (tick_respawn ext dt gm)) = asteroids gm"
  "level (snd (tick_respawn ext dt gm)) = level gm"
  by (simp_all add: tick_respawn_def Let_def)

lemma tick_respawn_same_lives:
  "lives (snd (tick_respawn ext dt gm)) = lives gm \<Longrightarrow>
     g_ship (snd (tick_respawn ext dt gm)) = g_ship gm"
  by (auto simp add: tick_respawn_def Let_def split: if_splits)

lemma tick_level_same_level:
  "tick_level ext gm g = Some (Inr (gm', g')) \<Longrightarrow> level gm' = level gm \<Longrightarrow>
     asteroids gm' = asteroids gm"
  by (auto simp add: tick_level_def Let_def split: if_splits option.splits sum.splits)

lemma tick_level_level:
  "tick_level ext gm g = Some (Inr (gm', g')) \<Longrightarrow>
     level gm' = level gm \<or> level gm' = level gm + 1"
  by (auto simp add: tick_level_def Let_def split: if_splits option.splits sum.splits)

lemma Asteroid_tick_alive: "a_alive (Asteroid_tick a dt) = a_alive a"
  by (simp add: Asteroid_tick_def)

lemma Bullet_tick_stays_dead: "\<not> b_alive b \<Longrightarrow> \<not> b_alive (Bullet_tick b dt)"
  by (simp add: Bullet_tick_dead)

text \<open>
  C2, amended. Whenever \<open>tick\<close> returns, its collision block has returned a game
  \<open>gmc\<close>, and every body stored in \<open>gmc\<close>, dead or alive, has received the call of its
  own \<open>tick\<close> in the advancement step: the bullets after the call are the ticked bullets
  of \<open>gmc\<close>; so are the asteroids, unless a new level has replaced them in the same
  call; so is the ship, unless a life has been taken and a new ship put in its place.
  In that step a dead body is left out of the wraparound, not of the advancement: a dead
  asteroid has moved by its velocity times \<open>dt\<close>, a dead bullet has moved and aged, a
  dead ship has been integrated, and none of them has been wrapped.
\<close>

theorem tick_advances_dead_bodies:
  assumes "tick ext gm dt g = Some (Inr (st, gm2, g'))"
  shows "\<exists>gmc.
           handle_collisions ext gm = Inr gmc
         \<and> bullets gm2 = map (\<lambda>b. wrap_bullet (window_size gm) (Bullet_tick b dt)) (bullets gmc)
         \<and> (\<forall>b \<in> set (bullets gmc). \<not> b_alive b \<longrightarrow>
               wrap_bullet (window_size gm) (Bullet_tick b dt)
                 = b\<lparr>b_r := vadd (b_r b) (smul dt (b_v b)), b_age := b_age b + dt\<rparr>)
         \<and> (level gm2 = level gm \<longrightarrow>
               asteroids gm2
                 = map (\<lambda>a. wrap_asteroid (window_size gm) (Asteroid_tick a dt)) (asteroids gmc))
         \<and> (\<forall>a \<in> set (asteroids gmc). \<not> a_alive a \<longrightarrow>
               wrap_asteroid (window_size gm) (Asteroid_tick a dt)
                 = a\<lparr>a_r := vadd (a_r a) (smul dt (a_v a))\<rparr>)
         \<and> (lives gm2 = lives gm \<longrightarrow>
               g_ship gm2 = wrap_ship (window_size gm) (Ship_tick ext (g_ship gmc) dt))
         \<and> (\<not> s_alive (g_ship gmc) \<longrightarrow>
               wrap_ship (window_size gm) (Ship_tick ext (g_ship gmc) dt)
                 = Ship_tick ext (g_ship gmc) dt)"
proof -
  from assms obtain gm1 where u: "tick_update ext gm dt g = Some (Inr (gm1, g'))"
    and r: "gm2 = snd (tick_respawn ext dt gm1)"
    by (auto simp add: tick_def split: option.splits sum.splits prod.splits)
  from u obtain gmc where c: "handle_collisions ext gm = Inr gmc"
    and l: "tick_level ext (tick_sprites ext dt gmc) g = Some (Inr (gm1, g'))"
    by (auto simp add: tick_update_def split: sum.splits)
  note kc = handle_collisions_keeps [OF c]
  note kl = tick_level_keeps [OF l]
  have w: "window_size gmc = window_size gm" using kc by simp
  have b: "bullets gm2 = map (\<lambda>b. wrap_bullet (window_size gm) (Bullet_tick b dt)) (bullets gmc)"
    using kl by (simp add: r tick_respawn_keeps tick_sprites_def w)
  have bd: "\<forall>b \<in> set (bullets gmc). \<not> b_alive b \<longrightarrow>
               wrap_bullet (window_size gm) (Bullet_tick b dt)
                 = b\<lparr>b_r := vadd (b_r b) (smul dt (b_v b)), b_age := b_age b + dt\<rparr>"
  proof (intro ballI impI)
    fix b :: bullet assume "\<not> b_alive b"
    then show "wrap_bullet (window_size gm) (Bullet_tick b dt)
                 = b\<lparr>b_r := vadd (b_r b) (smul dt (b_v b)), b_age := b_age b + dt\<rparr>"
      using wrap_bullet_dead [OF Bullet_tick_stays_dead] by (simp add: Bullet_tick_dead)
  qed
  have a: "level gm2 = level gm \<longrightarrow>
               asteroids gm2
                 = map (\<lambda>a. wrap_asteroid (window_size gm) (Asteroid_tick a dt)) (asteroids gmc)"
  proof
    assume "level gm2 = level gm"
    then have "level gm1 = level (tick_sprites ext dt gmc)"
      using kc by (simp add: r tick_respawn_keeps tick_sprites_keeps)
    from tick_level_same_level [OF l this]
    show "asteroids gm2
            = map (\<lambda>a. wrap_asteroid (window_size gm) (Asteroid_tick a dt)) (asteroids gmc)"
      by (simp add: r tick_respawn_keeps tick_sprites_def w)
  qed
  have ad: "\<forall>a \<in> set (asteroids gmc). \<not> a_alive a \<longrightarrow>
               wrap_asteroid (window_size gm) (Asteroid_tick a dt)
                 = a\<lparr>a_r := vadd (a_r a) (smul dt (a_v a))\<rparr>"
  proof (intro ballI impI)
    fix a :: asteroid assume "\<not> a_alive a"
    then have "\<not> a_alive (Asteroid_tick a dt)" by (simp add: Asteroid_tick_alive)
    from wrap_asteroid_dead [OF this]
    show "wrap_asteroid (window_size gm) (Asteroid_tick a dt)
            = a\<lparr>a_r := vadd (a_r a) (smul dt (a_v a))\<rparr>"
      by (simp add: Asteroid_tick_def)
  qed
  have s: "lives gm2 = lives gm \<longrightarrow>
               g_ship gm2 = wrap_ship (window_size gm) (Ship_tick ext (g_ship gmc) dt)"
  proof
    assume "lives gm2 = lives gm"
    then have "lives (snd (tick_respawn ext dt gm1)) = lives gm1"
      using kc kl by (simp add: r tick_sprites_keeps)
    from tick_respawn_same_lives [OF this] kl
    show "g_ship gm2 = wrap_ship (window_size gm) (Ship_tick ext (g_ship gmc) dt)"
      by (simp add: r tick_sprites_def w)
  qed
  have sd: "\<not> s_alive (g_ship gmc) \<longrightarrow>
               wrap_ship (window_size gm) (Ship_tick ext (g_ship gmc) dt)
                 = Ship_tick ext (g_ship gmc) dt"
  proof
    assume "\<not> s_alive (g_ship gmc)"
    then have "\<not> s_alive (Ship_tick ext (g_ship gmc) dt)" by (simp add: Ship_tick_alive)
    then show "wrap_ship (window_size gm) (Ship_tick ext (g_ship gmc) dt)
                 = Ship_tick ext (g_ship gmc) dt"
      by (rule wrap_ship_dead)
  qed
  from c b bd a ad s sd show ?thesis by blast
qed

lemma handle_collisions_quiet:
  assumes "\<forall>b \<in> set (bullets gm). \<not> b_alive b" and "\<not> s_alive (g_ship gm)"
  shows "handle_collisions ext gm = Inr gm"
  using assms(2)
  by (simp add: handle_collisions_def handle_asteroid_bullet_collisions_def
      living_bullets_none [OF assms(1)] handle_asteroid_ship_collisions_def)

lemma example_session_fields:
  "window_size example_session = (800, 600)"
  "g_ship example_session = example_dead_ship"
  "level example_session = 1"
  "lives example_session = 1"
  "respawn_timer example_session = 3"
  "asteroids example_session
     = [example_dead_asteroid, example_asteroid 40 (700, 500) (0, 0)]"
  "bullets example_session = [example_dead_bullet]"
  by (simp_all add: example_session_def example_game_fields)

lemma example_dead_bullet_fields:
  "\<not> b_alive example_dead_bullet"
  "b_r example_dead_bullet = (10, 10)"
  "b_v example_dead_bullet = (100, 0)"
  "b_age example_dead_bullet = 0"
  by (simp_all add: example_dead_bullet_def Bullet_explode_def Bullet_init_def Let_def
      default_muzzle_speed_def)

lemma example_dead_asteroid_fields:
  "\<not> a_alive example_dead_asteroid"
  "a_r example_dead_asteroid = (100, 100)"
  "a_v example_dead_asteroid = (60, 0)"
  by (simp_all add: example_dead_asteroid_def example_asteroid_fields)

lemma example_session_quiet:
  "\<forall>b \<in> set (bullets example_session). \<not> b_alive b"
  "\<not> s_alive (g_ship example_session)"
  "list_ex a_alive (asteroids example_session) \<or> lives example_session \<le> 0"
  by (simp_all add: example_session_fields example_dead_bullet_fields example_dead_ship_dead
      example_asteroid_fields)

lemma example_session_tick:
  "tick example_externals example_session 1 example_rng
     = Some (Inr (PLAYING,
                  (tick_sprites example_externals 1 example_session)\<lparr>respawn_timer := 2\<rparr>,
                  example_rng))"
proof -
  have "tick_update example_externals example_session 1 example_rng
          = Some (Inr (tick_sprites example_externals 1 example_session, example_rng))"
    by (rule tick_update_quiet [OF example_session_quiet])
  moreover have "tick_respawn example_externals 1 (tick_sprites example_externals 1 example_session)
          = (PLAYING, (tick_sprites example_externals 1 example_session)\<lparr>respawn_timer := 2\<rparr>)"
    by (simp add: tick_respawn_def Let_def tick_sprites_timer example_session_fields)
  ultimately show ?thesis by (simp add: tick_def)
qed

lemma example_session_dead_asteroid_moves:
  "asteroids (tick_sprites example_externals 1 example_session) ! 0
     = example_dead_asteroid\<lparr>a_r := (160, 100)\<rparr>"
  using wrap_asteroid_dead [of "Asteroid_tick example_dead_asteroid 1" "(800, 600)"]
  by (simp add: tick_sprites_def example_session_fields Asteroid_tick_def
      example_dead_asteroid_fields)

text \<open>
  C2, as the claim states it, fails. In the example session the first asteroid is dead,
  at (100, 100) with velocity (60, 0). After a \<open>tick\<close> of one second, which returns
  PLAYING, it is at (160, 100): the dead asteroid has received the call of its \<open>tick\<close>.
\<close>

theorem dead_asteroid_is_ticked_counterexample:
  "tick example_externals example_session 1 example_rng
     = Some (Inr (PLAYING,
                  (tick_sprites example_externals 1 example_session)\<lparr>respawn_timer := 2\<rparr>,
                  example_rng))
   \<and> \<not> is_alive (Asteroid_sprite (asteroids example_session ! 0))
   \<and> a_r (asteroids example_session ! 0) = (100, 100)
   \<and> a_r (asteroids
            ((tick_sprites example_externals 1 example_session)\<lparr>respawn_timer := 2\<rparr>) ! 0)
       = (160, 100)"
  by (simp add: example_session_tick example_session_dead_asteroid_moves
      example_session_fields example_dead_asteroid_fields)

theorem tick_advances_dead_bodies_witness:
  "\<exists>gm2. tick example_externals example_session 1 example_rng
            = Some (Inr (PLAYING, gm2, example_rng))
        \<and> bullets gm2 = [example_dead_bullet\<lparr>b_r := (110, 10), b_age := 1\<rparr>]
        \<and> asteroids gm2 ! 0 = example_dead_asteroid\<lparr>a_r := (160, 100)\<rparr>
        \<and> g_ship gm2 = Ship_tick example_externals example_dead_ship 1"
proof -
  let ?gm2 = "(tick_sprites example_externals 1 example_session)\<lparr>respawn_timer := 2\<rparr>"
  have c: "handle_collisions example_externals example_session = Inr example_session"
    by (rule handle_collisions_quiet [OF example_session_quiet(1,2)])
  from tick_advances_dead_bodies [OF example_session_tick] c
  have b: "bullets ?gm2
             = map (\<lambda>b. wrap_bullet (window_size example_session) (Bullet_tick b 1))
                 (bullets example_session)"
    and bd: "\<forall>b \<in> set (bullets example_session). \<not> b_alive b \<longrightarrow>
               wrap_bullet (window_size example_session) (Bullet_tick b 1)
                 = b\<lparr>b_r := vadd (b_r b) (smul 1 (b_v b)), b_age := b_age b + 1\<rparr>"
    and a: "level ?gm2 = level example_session \<longrightarrow>
               asteroids ?gm2
                 = map (\<lambda>a. wrap_asteroid (window_size example_session) (Asteroid_tick a 1))
                     (asteroids example_session)"
    and ad: "\<forall>a \<in> set (asteroids example_session). \<not> a_alive a \<longrightarrow>
               wrap_asteroid (window_size example_session) (Asteroid_tick a 1)
                 = a\<lparr>a_r := vadd (a_r a) (smul 1 (a_v a))\<rparr>"
    and s: "lives ?gm2 = lives example_session \<longrightarrow>
               g_ship ?gm2
                 = wrap_ship (window_size example_session)
                     (Ship_tick example_externals (g_ship example_session) 1)"
    and sd: "\<not> s_alive (g_ship example_session) \<longrightarrow>
               wrap_ship (window_size example_session)
                   (Ship_tick example_externals (g_ship example_session) 1)
                 = Ship_tick example_externals (g_ship example_session) 1"
    by auto
  have "bullets ?gm2 = [example_dead_bullet\<lparr>b_r := (110, 10), b_age := 1\<rparr>]"
    using bd unfolding b
    by (simp add: example_session_fields example_dead_bullet_fields)
  moreover have "level ?gm2 = level example_session"
    by (simp add: tick_sprites_keeps)
  with a ad have "asteroids ?gm2 ! 0 = example_dead_asteroid\<lparr>a_r := (160, 100)\<rparr>"
    by (simp add: example_session_fields example_dead_asteroid_fields)
  moreover have "lives ?gm2 = lives example_session"
    by (simp add: tick_sprites_keeps)
  with s sd have "g_ship ?gm2 = Ship_tick example_externals example_dead_ship 1"
    by (simp add: example_session_fields example_dead_ship_dead)
  ultimately show ?thesis using example_session_tick by blast
qed

section \<open>A new session\<close>

lemma norm2_le_iff: "norm2 (a, b) \<le> r \<longleftrightarrow> 0 \<le> r \<and> a\<^sup>2 + b\<^sup>2 \<le> r\<^sup>2"
proof
  assume h: "norm2 (a, b) \<le> r"
  have "0 \<le> norm2 (a, b)" by simp
  with h have r: "0 \<le> r" by linarith
  from h have "sqrt (a\<^sup>2 + b\<^sup>2) \<le> r" by simp
  then have "a\<^sup>2 + b\<^sup>2 \<le> r\<^sup>2" by (rule real_sqrt_le_iff [THEN iffD1, OF order_trans [OF _ eq_refl]]) (simp add: r)
  with r show "0 \<le> r \<and> a\<^sup>2 + b\<^sup>2 \<le> r\<^sup>2" by simp
next
  assume "0 \<le> r \<and> a\<^sup>2 + b\<^sup>2 \<le> r\<^sup>2"
  then show "norm2 (a, b) \<le> r" by (simp add: real_le_lsqrt)
qed

lemma place_asteroid_accepts:
  "\<not> (s_alive s \<and> norm2 (vsub (proj2 (r_cm s)) (fst (generate_position win g))) \<le> d / 2) \<Longrightarrow>
     place_asteroid s win d g = Some (generate_position win g)"
  by (subst place_asteroid.simps) (auto simp add: Let_def)

text \<open>
  A worked example: with the example generator, \<open>Game_init\<close> returns a session of
  three asteroids, two lives in reserve and the example ship. Every diameter drawn is at
  most 45 pixels and every position drawn is (200, 150), which is 250 pixels from the
  ship, so the placement loop accepts its first draw.
\<close>

lemma ln2_bounds: "0 < ln (2::real)" "30 / ln (2::real) \<le> 60"
proof -
  have "ln (1 / 2 :: real) \<le> 1 / 2 - 1" by (rule ln_le_minus_one) simp
  moreover have "ln (1 / 2 :: real) = - ln 2" by (simp add: ln_div)
  ultimately have h: "1 / 2 \<le> ln (2::real)" by linarith
  then show p: "0 < ln (2::real)" by linarith
  have "30 \<le> 60 * ln (2::real)" using h by linarith
  then show "30 / ln (2::real) \<le> 60" using p by (simp add: pos_divide_le_eq)
qed

lemma example_diameter:
  "\<exists>d. generate_diameter None example_rng = Inr (d, example_rng) \<and> d \<le> 45"
proof -
  have "generate_diameter None example_rng = Inr (30 / ln 2 * (1 / 4) + 30, example_rng)"
    using ln2_bounds(1)
    by (simp add: generate_diameter_def rng_exponential_def example_rng_def Let_def
        default_minimum_diameter_def default_median_diameter_def not_less)
  moreover have "t * (1 / 4) + 30 \<le> 45" if "t \<le> 60" for t :: real
    using that by simp
  from this [OF ln2_bounds(2)] have "30 / ln 2 * (1 / 4) + 30 \<le> (45::real)" .
  ultimately show ?thesis by blast
qed

lemma example_position:
  "generate_position (800, 600) example_rng = ((200, 150), example_rng)"
  by (simp add: generate_position_def rng_uniform2_def example_rng_def)

lemma example_velocity:
  "\<exists>v. generate_velocity None example_rng = Inr (v, example_rng)"
  using ln2_bounds(1)
  by (simp add: generate_velocity_def rng_exponential_def rng_uniform2_def example_rng_def
      Let_def default_minimum_speed_def default_median_speed_def not_less)

lemma example_placement:
  assumes "proj2 (r_cm s) = (400, 300)" and "d \<le> 45"
  shows "place_asteroid s (800, 600) d example_rng = Some ((200, 150), example_rng)"
proof -
  have "\<not> norm2 (vsub (400, 300) (200, 150)) \<le> d / 2"
    using assms(2) by (simp add: norm2_le_iff power2_eq_square)
  then show ?thesis
    using place_asteroid_accepts [of s "(800, 600)" example_rng d]
    by (simp add: example_position assms(1))
qed

lemma example_spawn_loop:
  assumes "proj2 (r_cm (g_ship gm)) = (400, 300)" and "window_size gm = (800, 600)"
  shows "\<exists>new_asteroids. spawn_loop ext gm n example_rng = Some (Inr (new_asteroids, example_rng))
           \<and> length new_asteroids = n"
proof (induction n)
  case 0
  show ?case by simp
next
  case (Suc n)
  obtain d where d: "generate_diameter None example_rng = Inr (d, example_rng)" and "d \<le> 45"
    using example_diameter by blast
  then have p: "place_asteroid (g_ship gm) (window_size gm) d example_rng
                  = Some ((200, 150), example_rng)"
    using example_placement [OF assms(1)] by (simp add: assms(2))
  obtain v where v: "generate_velocity None example_rng = Inr (v, example_rng)"
    using example_velocity by blast
  from Suc obtain rest where
    r: "spawn_loop ext gm n example_rng = Some (Inr (rest, example_rng))" and l: "length rest = n"
    by blast
  show ?case
    by (simp add: d p v r l Let_def)
qed

lemma example_ship_position: "proj2 (r_cm example_ship) = (400, 300)"
  by (simp add: example_ship_def Ship_init_def Ship_tick_def Let_def)

lemma Game_init_example:
  "\<exists>gm. Game_init example_externals (800, 600) (255, 255, 255) None example_rng
           = Some (Inr (gm, example_rng))
        \<and> length (asteroids gm) = 3 \<and> g_ship gm = example_ship \<and> lives gm = 2"
proof -
  let ?gm = "\<lparr> window_size = (800, 600), foreground_color = (255, 255, 255),
               g_config = None, initial_lives = default_initial_lives,
               asteroids_count = default_asteroids_count,
               fragments_count = default_fragments_count,
               respawn_period = default_respawn_period,
               ship_spawn_parameters = initial_spawn_parameters (800, 600),
               g_ship = example_ship, score = 0, level = 1,
               respawn_timer = default_respawn_period,
               lives = default_initial_lives - 1, asteroids = [], bullets = [] \<rparr>"
  have "\<exists>new_asteroids. spawn_loop example_externals ?gm 3 example_rng
           = Some (Inr (new_asteroids, example_rng)) \<and> length new_asteroids = 3"
    by (rule example_spawn_loop) (simp_all add: example_ship_position)
  then obtain new_asteroids where
    s: "spawn_asteroids example_externals ?gm example_rng = Some (Inr (new_asteroids, example_rng))"
    and l: "length new_asteroids = 3"
    by (auto simp add: spawn_asteroids_def default_asteroids_count_def)
  have "Game_init example_externals (800, 600) (255, 255, 255) None example_rng
          = Some (Inr (?gm\<lparr>asteroids := new_asteroids\<rparr>, example_rng))"
    using s
    by (simp add: Game_init_def Let_def initial_spawn_parameters_def example_ship_def)
  then show ?thesis using l by (simp add: default_initial_lives_def)
qed

end
